theory Spec2Isabelle
  imports Main "HOL-Library.Word"
begin

section \<open>Time, errors and the execution context\<close>

text \<open>
  An instant of \<^verbatim>\<open>time.Time\<close> is an integer on one time line (nanoseconds since an
  epoch), a \<^verbatim>\<open>time.Duration\<close> an integer number of nanoseconds.
  \<^verbatim>\<open>t.Before(u)\<close> is \<open>t < u\<close>, \<^verbatim>\<open>t.Add(d)\<close> is \<open>t + d\<close>. A duration is an
  int64 of at most about 292 years, and \<^verbatim>\<open>Time.Add\<close> only saturates some 292
  billion years away from year 1, so the sum of a clock reading and a duration is exact.
\<close>

type_synonym time = int
type_synonym duration = int
type_synonym bytes = "8 word list"

text \<open>
  The difference of two instants need not fit a duration. \<^verbatim>\<open>time.Until(u)\<close> is
  \<^verbatim>\<open>u.Sub(time.Now())\<close>, and \<^verbatim>\<open>Sub\<close> returns the largest duration
  (\<open>2^63 - 1\<close> nanoseconds, about 292 years) when the difference is above it and the
  smallest (\<open>- 2^63\<close>) when it is below. \<open>time_Until u now\<close> is \<^verbatim>\<open>time.Until(u)\<close>
  read at instant \<open>now\<close>.
\<close>

definition maxDuration :: duration where
  "maxDuration = 2 ^ 63 - 1"

definition minDuration :: duration where
  "minDuration = - (2 ^ 63)"

definition time_Until :: "time \<Rightarrow> time \<Rightarrow> duration" where
  "time_Until u now =
     (if maxDuration < u - now then maxDuration
      else if u - now < minDuration then minDuration
      else u - now)"

text \<open>
  The three sentinel errors of \<^verbatim>\<open>timecapsule.go\<close>, the two errors a
  \<^verbatim>\<open>context.Context\<close> reports, and the opaque errors of a codec or a backend.
\<close>

datatype context_error = Canceled | DeadlineExceeded

datatype error =
    ErrCapsuleNotFound
  | ErrCapsuleLocked
  | ErrInvalidKey
  | ContextError context_error
  | ErrOther string

text \<open>
  A context is either never done (\<^verbatim>\<open>context.Background()\<close>) or becomes done at one
  instant, from which on \<^verbatim>\<open>ctx.Err()\<close> reports the same error. \<open>ctx_Err ctx now\<close>
  is \<^verbatim>\<open>ctx.Err()\<close> read at instant \<open>now\<close>; \<open>None\<close> is Go's \<^verbatim>\<open>nil\<close>.
\<close>

datatype Context = Background | DoneAt time context_error

fun ctx_Err :: "Context \<Rightarrow> time \<Rightarrow> context_error option" where
  "ctx_Err Background now = None"
| "ctx_Err (DoneAt t e) now = (if t \<le> now then Some e else None)"

section \<open>The data model of \<^verbatim>\<open>timecapsule.go\<close>\<close>

record 'v Capsule =
  Value :: 'v
  UnlockTime :: time
  CreatedAt :: time

record Metadata =
  MetaUnlockTime :: time
  MetaCreatedAt :: time
  IsLocked :: bool

text \<open>
  \<^verbatim>\<open>MemoryTimeCapsule\<close> holds the map from keys to capsules. The mutex \<^verbatim>\<open>mu\<close>
  makes every method body atomic with respect to the map; the model runs one call at a
  time, each at one instant \<open>now\<close> (the value of every \<^verbatim>\<open>time.Now()\<close> and
  \<^verbatim>\<open>ctx.Err()\<close> the call reads), and returns the result together with the store
  after the call.
\<close>

record 'v MemoryTimeCapsule =
  capsules :: "string \<rightharpoonup> 'v Capsule"

definition New :: "'v MemoryTimeCapsule" where
  "New = \<lparr>capsules = Map.empty\<rparr>"

section \<open>The in-memory store\<close>

text \<open>
  A Go result \<^verbatim>\<open>(T, error)\<close> is \<open>error + 'v\<close>: \<open>Inl err\<close> is the zero value
  returned with \<open>err\<close>, \<open>Inr v\<close> is \<open>v\<close> returned with \<^verbatim>\<open>nil\<close>. A result
  \<^verbatim>\<open>error\<close> is \<open>error option\<close>.
\<close>

definition MemoryTimeCapsule_Store ::
  "Context \<Rightarrow> string \<Rightarrow> 'v \<Rightarrow> time \<Rightarrow> time \<Rightarrow> 'v MemoryTimeCapsule
     \<Rightarrow> error option \<times> 'v MemoryTimeCapsule" where
  "MemoryTimeCapsule_Store ctx key val unlockTime now tc =
     (case ctx_Err ctx now of
        Some err \<Rightarrow> (Some (ContextError err), tc)
      | None \<Rightarrow>
          if key = [] then (Some ErrInvalidKey, tc)
          else
            let capsule = \<lparr>Value = val, UnlockTime = unlockTime, CreatedAt = now\<rparr>
            in (None, tc\<lparr>capsules := (capsules tc)(key \<mapsto> capsule)\<rparr>))"

definition MemoryTimeCapsule_Open ::
  "Context \<Rightarrow> string \<Rightarrow> time \<Rightarrow> 'v MemoryTimeCapsule
     \<Rightarrow> (error + 'v) \<times> 'v MemoryTimeCapsule" where
  "MemoryTimeCapsule_Open ctx key now tc =
     (case ctx_Err ctx now of
        Some err \<Rightarrow> (Inl (ContextError err), tc)
      | None \<Rightarrow>
          if key = [] then (Inl ErrInvalidKey, tc)
          else
            (case capsules tc key of
               None \<Rightarrow> (Inl ErrCapsuleNotFound, tc)
             | Some capsule \<Rightarrow>
                 if now < UnlockTime capsule then (Inl ErrCapsuleLocked, tc)
                 else (Inr (Value capsule), tc)))"

definition MemoryTimeCapsule_Peek ::
  "Context \<Rightarrow> string \<Rightarrow> time \<Rightarrow> 'v MemoryTimeCapsule
     \<Rightarrow> (error + Metadata) \<times> 'v MemoryTimeCapsule" where
  "MemoryTimeCapsule_Peek ctx key now tc =
     (case ctx_Err ctx now of
        Some err \<Rightarrow> (Inl (ContextError err), tc)
      | None \<Rightarrow>
          if key = [] then (Inl ErrInvalidKey, tc)
          else
            (case capsules tc key of
               None \<Rightarrow> (Inl ErrCapsuleNotFound, tc)
             | Some capsule \<Rightarrow>
                 (Inr \<lparr>MetaUnlockTime = UnlockTime capsule,
                       MetaCreatedAt = CreatedAt capsule,
                       IsLocked = (now < UnlockTime capsule)\<rparr>, tc)))"

definition MemoryTimeCapsule_Delay ::
  "Context \<Rightarrow> string \<Rightarrow> duration \<Rightarrow> time \<Rightarrow> 'v MemoryTimeCapsule
     \<Rightarrow> error option \<times> 'v MemoryTimeCapsule" where
  "MemoryTimeCapsule_Delay ctx key delay now tc =
     (case ctx_Err ctx now of
        Some err \<Rightarrow> (Some (ContextError err), tc)
      | None \<Rightarrow>
          if key = [] then (Some ErrInvalidKey, tc)
          else
            (case capsules tc key of
               None \<Rightarrow> (Some ErrCapsuleNotFound, tc)
             | Some capsule \<Rightarrow>
                 (None, tc\<lparr>capsules :=
                    (capsules tc)(key \<mapsto> capsule\<lparr>UnlockTime := now + delay\<rparr>)\<rparr>)))"

definition MemoryTimeCapsule_Delete ::
  "Context \<Rightarrow> string \<Rightarrow> time \<Rightarrow> 'v MemoryTimeCapsule
     \<Rightarrow> error option \<times> 'v MemoryTimeCapsule" where
  "MemoryTimeCapsule_Delete ctx key now tc =
     (case ctx_Err ctx now of
        Some err \<Rightarrow> (Some (ContextError err), tc)
      | None \<Rightarrow>
          if key = [] then (Some ErrInvalidKey, tc)
          else
            (case capsules tc key of
               None \<Rightarrow> (Some ErrCapsuleNotFound, tc)
             | Some _ \<Rightarrow> (None, tc\<lparr>capsules := (capsules tc)(key := None)\<rparr>)))"

definition MemoryTimeCapsule_Exists ::
  "Context \<Rightarrow> string \<Rightarrow> time \<Rightarrow> 'v MemoryTimeCapsule
     \<Rightarrow> bool \<times> 'v MemoryTimeCapsule" where
  "MemoryTimeCapsule_Exists ctx key now tc =
     (case ctx_Err ctx now of
        Some err \<Rightarrow> (False, tc)
      | None \<Rightarrow>
          if key = [] then (False, tc)
          else (capsules tc key \<noteq> None, tc))"

text \<open>
  \<^verbatim>\<open>WaitForUnlock\<close> is the one method that blocks. While the caller is parked in
  its \<^verbatim>\<open>select\<close>, time passes and other goroutines may change the store; what they
  do is not decided by the method, so it comes in as \<open>wait_env\<close>:
  \<^item> \<open>during_wait\<close>: the effect of the other goroutines on the store during the wait;
  \<^item> \<open>ctx_first\<close>: the runtime's pick when both channels of the \<^verbatim>\<open>select\<close>
    become ready at the same instant (Go picks one at random);
  \<^item> \<open>lag\<close>: the delay between the channel becoming ready and the caller running again.

  The statements before the \<^verbatim>\<open>select\<close> run at the instant \<open>now\<close> of the call.
\<close>

record 'st wait_env =
  during_wait :: "'st \<Rightarrow> 'st"
  ctx_first :: bool
  lag :: nat

datatype select_case = Ctx_Done context_error | Timer_C

text \<open>
  The \<^verbatim>\<open>select\<close> over \<^verbatim>\<open>ctx.Done()\<close> and \<^verbatim>\<open>timer.C\<close>, entered at
  instant \<open>now\<close> with a timer of duration \<open>d\<close> (a timer of non-positive duration
  fires at once). The timer fires at \<open>now + max 0 d\<close>; a context done strictly before
  that is received first, a context done later or never leaves the timer to be received,
  and when both happen at one instant the runtime picks. It returns the case received,
  with the error \<^verbatim>\<open>ctx.Err()\<close> then reports, and the instant at which that case's
  body runs.
\<close>

definition select_Done_Timer ::
  "Context \<Rightarrow> time \<Rightarrow> duration \<Rightarrow> 'st wait_env \<Rightarrow> select_case \<times> time" where
  "select_Done_Timer ctx now d env =
     (let fire = now + max 0 d in
      case ctx of
        Background \<Rightarrow> (Timer_C, fire + int (lag env))
      | DoneAt t e \<Rightarrow>
          if t < fire \<or> (t = fire \<and> ctx_first env)
          then (Ctx_Done e, max now t + int (lag env))
          else (Timer_C, fire + int (lag env)))"

definition MemoryTimeCapsule_WaitForUnlock ::
  "Context \<Rightarrow> string \<Rightarrow> time \<Rightarrow> 'v MemoryTimeCapsule wait_env \<Rightarrow> 'v MemoryTimeCapsule
     \<Rightarrow> (error + 'v) \<times> 'v MemoryTimeCapsule" where
  "MemoryTimeCapsule_WaitForUnlock ctx key now env tc =
     (case ctx_Err ctx now of
        Some err \<Rightarrow> (Inl (ContextError err), tc)
      | None \<Rightarrow>
          (case MemoryTimeCapsule_Peek ctx key now tc of
             (Inl err, tc1) \<Rightarrow> (Inl err, tc1)
           | (Inr metadata, tc1) \<Rightarrow>
               if \<not> IsLocked metadata then MemoryTimeCapsule_Open ctx key now tc1
               else
                 (case select_Done_Timer ctx now (time_Until (MetaUnlockTime metadata) now) env of
                    (Ctx_Done err, t) \<Rightarrow> (Inl (ContextError err), during_wait env tc1)
                  | (Timer_C, t) \<Rightarrow>
                      MemoryTimeCapsule_Open ctx key t (during_wait env tc1))))"

section \<open>The backend-delegating store of \<^verbatim>\<open>storage.go\<close>\<close>

text \<open>
  \<^verbatim>\<open>Storage\<close> is an interface: a backend is any state type \<open>'b\<close> with the five
  methods below (each takes the context, its arguments, the instant of the call and the
  backend's state, and returns its result with the new state). \<^verbatim>\<open>Close\<close> is called
  by no method of \<^verbatim>\<open>PersistentTimeCapsule\<close> and is left out. \<^verbatim>\<open>Codec\<close> is the
  second interface; its errors are opaque.
\<close>

record 'b Storage =
  storage_Store :: "Context \<Rightarrow> string \<Rightarrow> bytes \<Rightarrow> time \<Rightarrow> time \<Rightarrow> 'b \<Rightarrow> error option \<times> 'b"
  storage_Open :: "Context \<Rightarrow> string \<Rightarrow> time \<Rightarrow> 'b \<Rightarrow> (error + bytes) \<times> 'b"
  storage_Peek :: "Context \<Rightarrow> string \<Rightarrow> time \<Rightarrow> 'b \<Rightarrow> (error + Metadata) \<times> 'b"
  storage_Delete :: "Context \<Rightarrow> string \<Rightarrow> time \<Rightarrow> 'b \<Rightarrow> error option \<times> 'b"
  storage_Exists :: "Context \<Rightarrow> string \<Rightarrow> time \<Rightarrow> 'b \<Rightarrow> bool \<times> 'b"

record 'v Codec =
  Encode :: "'v \<Rightarrow> error + bytes"
  Decode :: "bytes \<Rightarrow> error + 'v"

record ('b, 'v) PersistentTimeCapsule =
  storage :: "'b Storage"
  codec :: "'v Codec"

definition NewWithStorage :: "'b Storage \<Rightarrow> 'v Codec \<Rightarrow> ('b, 'v) PersistentTimeCapsule" where
  "NewWithStorage st cd = \<lparr>storage = st, codec = cd\<rparr>"

definition PersistentTimeCapsule_Store ::
  "('b, 'v) PersistentTimeCapsule \<Rightarrow> Context \<Rightarrow> string \<Rightarrow> 'v \<Rightarrow> time \<Rightarrow> time \<Rightarrow> 'b
     \<Rightarrow> error option \<times> 'b" where
  "PersistentTimeCapsule_Store tc ctx key val unlockTime now b =
     (case ctx_Err ctx now of
        Some err \<Rightarrow> (Some (ContextError err), b)
      | None \<Rightarrow>
          if key = [] then (Some ErrInvalidKey, b)
          else
            (case Encode (codec tc) val of
               Inl err \<Rightarrow> (Some err, b)
             | Inr data \<Rightarrow> storage_Store (storage tc) ctx key data unlockTime now b))"

definition PersistentTimeCapsule_Open ::
  "('b, 'v) PersistentTimeCapsule \<Rightarrow> Context \<Rightarrow> string \<Rightarrow> time \<Rightarrow> 'b
     \<Rightarrow> (error + 'v) \<times> 'b" where
  "PersistentTimeCapsule_Open tc ctx key now b =
     (case ctx_Err ctx now of
        Some err \<Rightarrow> (Inl (ContextError err), b)
      | None \<Rightarrow>
          if key = [] then (Inl ErrInvalidKey, b)
          else
            (case storage_Open (storage tc) ctx key now b of
               (Inl err, b1) \<Rightarrow> (Inl err, b1)
             | (Inr data, b1) \<Rightarrow> (Decode (codec tc) data, b1)))"

definition PersistentTimeCapsule_Peek ::
  "('b, 'v) PersistentTimeCapsule \<Rightarrow> Context \<Rightarrow> string \<Rightarrow> time \<Rightarrow> 'b
     \<Rightarrow> (error + Metadata) \<times> 'b" where
  "PersistentTimeCapsule_Peek tc ctx key now b =
     (case ctx_Err ctx now of
        Some err \<Rightarrow> (Inl (ContextError err), b)
      | None \<Rightarrow>
          if key = [] then (Inl ErrInvalidKey, b)
          else storage_Peek (storage tc) ctx key now b)"

definition PersistentTimeCapsule_Delay ::
  "('b, 'v) PersistentTimeCapsule \<Rightarrow> Context \<Rightarrow> string \<Rightarrow> duration \<Rightarrow> time \<Rightarrow> 'b
     \<Rightarrow> error option \<times> 'b" where
  "PersistentTimeCapsule_Delay tc ctx key delay now b =
     (case ctx_Err ctx now of
        Some err \<Rightarrow> (Some (ContextError err), b)
      | None \<Rightarrow>
          if key = [] then (Some ErrInvalidKey, b)
          else
            (case storage_Peek (storage tc) ctx key now b of
               (Inl err, b1) \<Rightarrow> (Some err, b1)
             | (Inr _, b1) \<Rightarrow>
                 let newUnlockTime = now + delay in
                 (case storage_Open (storage tc) ctx key now b1 of
                    (Inl err, b2) \<Rightarrow> (Some err, b2)
                  | (Inr data, b2) \<Rightarrow>
                      storage_Store (storage tc) ctx key data newUnlockTime now b2)))"

definition PersistentTimeCapsule_Delete ::
  "('b, 'v) PersistentTimeCapsule \<Rightarrow> Context \<Rightarrow> string \<Rightarrow> time \<Rightarrow> 'b
     \<Rightarrow> error option \<times> 'b" where
  "PersistentTimeCapsule_Delete tc ctx key now b =
     (case ctx_Err ctx now of
        Some err \<Rightarrow> (Some (ContextError err), b)
      | None \<Rightarrow>
          if key = [] then (Some ErrInvalidKey, b)
          else storage_Delete (storage tc) ctx key now b)"

definition PersistentTimeCapsule_Exists ::
  "('b, 'v) PersistentTimeCapsule \<Rightarrow> Context \<Rightarrow> string \<Rightarrow> time \<Rightarrow> 'b \<Rightarrow> bool \<times> 'b" where
  "PersistentTimeCapsule_Exists tc ctx key now b =
     (case ctx_Err ctx now of
        Some err \<Rightarrow> (False, b)
      | None \<Rightarrow>
          if key = [] then (False, b)
          else storage_Exists (storage tc) ctx key now b)"

definition PersistentTimeCapsule_WaitForUnlock ::
  "('b, 'v) PersistentTimeCapsule \<Rightarrow> Context \<Rightarrow> string \<Rightarrow> time \<Rightarrow> 'b wait_env \<Rightarrow> 'b
     \<Rightarrow> (error + 'v) \<times> 'b" where
  "PersistentTimeCapsule_WaitForUnlock tc ctx key now env b =
     (case ctx_Err ctx now of
        Some err \<Rightarrow> (Inl (ContextError err), b)
      | None \<Rightarrow>
          (case PersistentTimeCapsule_Peek tc ctx key now b of
             (Inl err, b1) \<Rightarrow> (Inl err, b1)
           | (Inr metadata, b1) \<Rightarrow>
               if \<not> IsLocked metadata then PersistentTimeCapsule_Open tc ctx key now b1
               else
                 (case select_Done_Timer ctx now (time_Until (MetaUnlockTime metadata) now) env of
                    (Ctx_Done err, t) \<Rightarrow> (Inl (ContextError err), during_wait env b1)
                  | (Timer_C, t) \<Rightarrow>
                      PersistentTimeCapsule_Open tc ctx key t (during_wait env b1))))"

text \<open>
  The repository ships no implementation of \<^verbatim>\<open>Storage\<close>. The in-memory engine at
  value type \<^verbatim>\<open>[]byte\<close> has \<^verbatim>\<open>Store\<close>, \<^verbatim>\<open>Open\<close>, \<^verbatim>\<open>Peek\<close>,
  \<^verbatim>\<open>Delete\<close> and \<^verbatim>\<open>Exists\<close> with the signatures the interface asks for; it
  has no \<^verbatim>\<open>Close\<close>, so in Go it becomes a \<^verbatim>\<open>Storage\<close> through an adapter that
  adds that one method and passes the other five through. \<open>MemoryStorage\<close> is that
  backend. Its \<^verbatim>\<open>Open\<close> succeeds only on an unlocked capsule, as the interface's
  comment (\<^verbatim>\<open>Open retrieves a value if it's unlocked\<close>) requires.
\<close>

definition MemoryStorage :: "(bytes MemoryTimeCapsule) Storage" where
  "MemoryStorage =
     \<lparr>storage_Store = MemoryTimeCapsule_Store,
      storage_Open = MemoryTimeCapsule_Open,
      storage_Peek = MemoryTimeCapsule_Peek,
      storage_Delete = MemoryTimeCapsule_Delete,
      storage_Exists = MemoryTimeCapsule_Exists\<rparr>"

section \<open>Store and Open\<close>



section \<open>Delay on the in-memory store\<close>

text \<open>
  C2. For a record under a non-empty key \<open>k\<close> and a context that is not cancelled,
  \<open>Delay(k, d)\<close> called at instant \<open>now\<close> succeeds and leaves under \<open>k\<close> the same
  record with its unlock time replaced by \<open>now + d\<close>, whatever the unlock time was
  before. A second \<open>Delay(k, d')\<close> at instant \<open>now'\<close> leaves the unlock time
  \<open>now' + d'\<close>: the delays do not add up, each counts from the instant of its own call.
\<close>

theorem C2_delay_resets_from_now:
  fixes tc :: "'v MemoryTimeCapsule"
  assumes "k \<noteq> []" and "capsules tc k = Some c"
    and "ctx_Err ctx now = None" and "ctx_Err ctx' now' = None"
  shows "fst (MemoryTimeCapsule_Delay ctx k d now tc) = None
       \<and> capsules (snd (MemoryTimeCapsule_Delay ctx k d now tc)) k
           = Some (c\<lparr>UnlockTime := now + d\<rparr>)
       \<and> fst (MemoryTimeCapsule_Delay ctx' k d' now'
                (snd (MemoryTimeCapsule_Delay ctx k d now tc))) = None
       \<and> capsules (snd (MemoryTimeCapsule_Delay ctx' k d' now'
                (snd (MemoryTimeCapsule_Delay ctx k d now tc)))) k
           = Some (c\<lparr>UnlockTime := now' + d'\<rparr>)"
  using assms by (simp add: MemoryTimeCapsule_Delay_def)

theorem C2_delay_resets_from_now_witness:
  "capsules (snd (MemoryTimeCapsule_Delay Background ''x'' 7200 1
      \<lparr>capsules = [''x'' \<mapsto> \<lparr>Value = ''v'', UnlockTime = 3600, CreatedAt = 0\<rparr>]\<rparr>)) ''x''
    = Some \<lparr>Value = ''v'', UnlockTime = 7201, CreatedAt = 0\<rparr>
   \<and> capsules (snd (MemoryTimeCapsule_Delay Background ''x'' 10 2
        (snd (MemoryTimeCapsule_Delay Background ''x'' 7200 1
      \<lparr>capsules = [''x'' \<mapsto> \<lparr>Value = ''v'', UnlockTime = 3600, CreatedAt = 0\<rparr>]\<rparr>)))) ''x''
    = Some \<lparr>Value = ''v'', UnlockTime = 12, CreatedAt = 0\<rparr>"
  using C2_delay_resets_from_now [of "''x''"
     "\<lparr>capsules = [''x'' \<mapsto> \<lparr>Value = ''v'', UnlockTime = 3600, CreatedAt = 0\<rparr>]\<rparr>"
     "\<lparr>Value = ''v'', UnlockTime = 3600, CreatedAt = 0\<rparr>" Background 1 Background 2 7200 10]
  by simp

section \<open>Store is an upsert\<close>

text \<open>
  C4. For a non-empty key \<open>k\<close> (and contexts that are not cancelled),
  \<open>Store(k, v1, u1)\<close> at instant \<open>t1\<close> followed by \<open>Store(k, v2, u2)\<close> at instant
  \<open>t2\<close> both succeed and leave under \<open>k\<close> the one record with value \<open>v2\<close>, unlock
  time \<open>u2\<close> and creation time \<open>t2\<close>, the instant of the second call. The store is
  the one the second call alone would have left: nothing of the first record, its
  creation time included, survives, and no other key is added.
\<close>

theorem C4_store_upsert:
  fixes tc :: "'v MemoryTimeCapsule"
  assumes "k \<noteq> []" and "ctx_Err ctx1 t1 = None" and "ctx_Err ctx2 t2 = None"
  shows "fst (MemoryTimeCapsule_Store ctx1 k v1 u1 t1 tc) = None
       \<and> fst (MemoryTimeCapsule_Store ctx2 k v2 u2 t2
                (snd (MemoryTimeCapsule_Store ctx1 k v1 u1 t1 tc))) = None
       \<and> capsules (snd (MemoryTimeCapsule_Store ctx2 k v2 u2 t2
                (snd (MemoryTimeCapsule_Store ctx1 k v1 u1 t1 tc)))) k
           = Some \<lparr>Value = v2, UnlockTime = u2, CreatedAt = t2\<rparr>
       \<and> snd (MemoryTimeCapsule_Store ctx2 k v2 u2 t2
                (snd (MemoryTimeCapsule_Store ctx1 k v1 u1 t1 tc)))
           = snd (MemoryTimeCapsule_Store ctx2 k v2 u2 t2 tc)
       \<and> dom (capsules (snd (MemoryTimeCapsule_Store ctx2 k v2 u2 t2
                (snd (MemoryTimeCapsule_Store ctx1 k v1 u1 t1 tc)))))
           = insert k (dom (capsules tc))"
  using assms by (simp add: MemoryTimeCapsule_Store_def)

theorem C4_store_upsert_witness:
  "capsules (snd (MemoryTimeCapsule_Store Background ''x'' ''b'' 20 2
                (snd (MemoryTimeCapsule_Store Background ''x'' ''a'' 10 1 New)))) ''x''
           = Some \<lparr>Value = ''b'', UnlockTime = 20, CreatedAt = 2\<rparr>
   \<and> dom (capsules (snd (MemoryTimeCapsule_Store Background ''x'' ''b'' 20 2
                (snd (MemoryTimeCapsule_Store Background ''x'' ''a'' 10 1 New)))))
           = insert ''x'' (dom (capsules (New :: string MemoryTimeCapsule)))"
proof -
  have key: "''x'' \<noteq> []" by simp
  have live1: "ctx_Err Background 1 = None" by simp
  have live2: "ctx_Err Background 2 = None" by simp
  show ?thesis
    using C4_store_upsert [OF key live1 live2, of "''a''" 10 New "''b''" 20] by blast
qed

section \<open>Peek\<close>

text \<open>
  C6. For a record \<open>c\<close> under a non-empty key \<open>k\<close> (and a context that is not
  cancelled), \<open>Peek(k)\<close> at instant \<open>now\<close> returns the metadata with the record's
  unlock time and creation time and with \<open>IsLocked = (now < UnlockTime c)\<close>, computed
  from the instant of the call. \<open>Peek\<close> returns \<open>ErrInvalidKey\<close> for the empty key and
  \<open>ErrCapsuleNotFound\<close> for an absent key, and never \<open>ErrCapsuleLocked\<close>, under any
  context. Its result does not depend on the stored value: two stores whose records
  under \<open>k\<close> agree on unlock time and creation time give the same result. \<open>Peek\<close>
  leaves the store as it found it.
\<close>

theorem C6_peek_metadata:
  fixes tc tc' :: "'v MemoryTimeCapsule"
  shows "(ctx_Err ctx now = None \<and> k \<noteq> [] \<and> capsules tc k = Some c \<longrightarrow>
            fst (MemoryTimeCapsule_Peek ctx k now tc)
              = Inr \<lparr>MetaUnlockTime = UnlockTime c, MetaCreatedAt = CreatedAt c,
                     IsLocked = (now < UnlockTime c)\<rparr>)
       \<and> (ctx_Err ctx now = None \<longrightarrow>
            fst (MemoryTimeCapsule_Peek ctx [] now tc) = Inl ErrInvalidKey)
       \<and> (ctx_Err ctx now = None \<and> k \<noteq> [] \<and> capsules tc k = None \<longrightarrow>
            fst (MemoryTimeCapsule_Peek ctx k now tc) = Inl ErrCapsuleNotFound)
       \<and> fst (MemoryTimeCapsule_Peek ctx k' now tc) \<noteq> Inl ErrCapsuleLocked
       \<and> (capsules tc k = Some c \<and> capsules tc' k = Some c'
            \<and> UnlockTime c' = UnlockTime c \<and> CreatedAt c' = CreatedAt c \<longrightarrow>
            fst (MemoryTimeCapsule_Peek ctx k now tc') = fst (MemoryTimeCapsule_Peek ctx k now tc))
       \<and> snd (MemoryTimeCapsule_Peek ctx k' now tc) = tc"
  by (simp add: MemoryTimeCapsule_Peek_def split: option.split)

theorem C6_peek_metadata_witness:
  "fst (MemoryTimeCapsule_Peek Background ''x'' 3
          \<lparr>capsules = [''x'' \<mapsto> \<lparr>Value = ''v'', UnlockTime = 10, CreatedAt = 1\<rparr>]\<rparr>)
     = Inr \<lparr>MetaUnlockTime = 10, MetaCreatedAt = 1, IsLocked = True\<rparr>
   \<and> fst (MemoryTimeCapsule_Peek Background ''x'' 10
          \<lparr>capsules = [''x'' \<mapsto> \<lparr>Value = ''v'', UnlockTime = 10, CreatedAt = 1\<rparr>]\<rparr>)
     = Inr \<lparr>MetaUnlockTime = 10, MetaCreatedAt = 1, IsLocked = False\<rparr>
   \<and> fst (MemoryTimeCapsule_Peek Background [] 3 (New :: string MemoryTimeCapsule))
     = Inl ErrInvalidKey
   \<and> fst (MemoryTimeCapsule_Peek Background ''y'' 3 (New :: string MemoryTimeCapsule))
     = Inl ErrCapsuleNotFound
   \<and> fst (MemoryTimeCapsule_Peek Background ''x'' 3
          \<lparr>capsules = [''x'' \<mapsto> \<lparr>Value = ''w'', UnlockTime = 10, CreatedAt = 1\<rparr>]\<rparr>)
     = fst (MemoryTimeCapsule_Peek Background ''x'' 3
          \<lparr>capsules = [''x'' \<mapsto> \<lparr>Value = ''v'', UnlockTime = 10, CreatedAt = 1\<rparr>]\<rparr>)"
  using C6_peek_metadata [of Background 3 "''x''"
      "\<lparr>capsules = [''x'' \<mapsto> \<lparr>Value = ''v'', UnlockTime = 10, CreatedAt = 1\<rparr>]\<rparr>"
      "\<lparr>Value = ''v'', UnlockTime = 10, CreatedAt = 1\<rparr>" "''x''"
      "\<lparr>capsules = [''x'' \<mapsto> \<lparr>Value = ''w'', UnlockTime = 10, CreatedAt = 1\<rparr>]\<rparr>"
      "\<lparr>Value = ''w'', UnlockTime = 10, CreatedAt = 1\<rparr>"]
    C6_peek_metadata [of Background 10 "''x''"
      "\<lparr>capsules = [''x'' \<mapsto> \<lparr>Value = ''v'', UnlockTime = 10, CreatedAt = 1\<rparr>]\<rparr>"
      "\<lparr>Value = ''v'', UnlockTime = 10, CreatedAt = 1\<rparr>"]
    C6_peek_metadata [of Background 3 "''y''" "New :: string MemoryTimeCapsule"]
  by (simp add: New_def)

section \<open>A context that is already cancelled\<close>

text \<open>
  Every method of both stores reads \<^verbatim>\<open>ctx.Err()\<close> before anything else.
\<close>

lemma Memory_cancelled:
  fixes tc :: "'v MemoryTimeCapsule"
  assumes "ctx_Err ctx now = Some e"
  shows "MemoryTimeCapsule_Store ctx key val u now tc = (Some (ContextError e), tc)"
    and "MemoryTimeCapsule_Open ctx key now tc = (Inl (ContextError e), tc)"
    and "MemoryTimeCapsule_Peek ctx key now tc = (Inl (ContextError e), tc)"
    and "MemoryTimeCapsule_Delay ctx key d now tc = (Some (ContextError e), tc)"
    and "MemoryTimeCapsule_Delete ctx key now tc = (Some (ContextError e), tc)"
    and "MemoryTimeCapsule_Exists ctx key now tc = (False, tc)"
    and "MemoryTimeCapsule_WaitForUnlock ctx key now env tc = (Inl (ContextError e), tc)"
  using assms
  by (simp_all add: MemoryTimeCapsule_Store_def MemoryTimeCapsule_Open_def
      MemoryTimeCapsule_Peek_def MemoryTimeCapsule_Delay_def MemoryTimeCapsule_Delete_def
      MemoryTimeCapsule_Exists_def MemoryTimeCapsule_WaitForUnlock_def)

lemma Persistent_cancelled:
  fixes ptc :: "('b, 'v) PersistentTimeCapsule"
  assumes "ctx_Err ctx now = Some e"
  shows "PersistentTimeCapsule_Store ptc ctx key val u now b = (Some (ContextError e), b)"
    and "PersistentTimeCapsule_Open ptc ctx key now b = (Inl (ContextError e), b)"
    and "PersistentTimeCapsule_Peek ptc ctx key now b = (Inl (ContextError e), b)"
    and "PersistentTimeCapsule_Delay ptc ctx key d now b = (Some (ContextError e), b)"
    and "PersistentTimeCapsule_Delete ptc ctx key now b = (Some (ContextError e), b)"
    and "PersistentTimeCapsule_Exists ptc ctx key now b = (False, b)"
    and "PersistentTimeCapsule_WaitForUnlock ptc ctx key now benv b = (Inl (ContextError e), b)"
  using assms
  by (simp_all add: PersistentTimeCapsule_Store_def PersistentTimeCapsule_Open_def
      PersistentTimeCapsule_Peek_def PersistentTimeCapsule_Delay_def
      PersistentTimeCapsule_Delete_def PersistentTimeCapsule_Exists_def
      PersistentTimeCapsule_WaitForUnlock_def)

text \<open>
  C8. If the context is already cancelled when the call is made, each of \<open>Store\<close>,
  \<open>Open\<close>, \<open>Peek\<close>, \<open>Delay\<close>, \<open>Delete\<close> and \<open>WaitForUnlock\<close> of both stores
  returns the context's error, \<open>Exists\<close> returns \<open>False\<close>, and the store (for the
  backend-delegating store: the state of the backend, which is not called) is the one
  the call found.
\<close>

theorem C8_cancelled_context_no_effect:
  fixes tc :: "'v MemoryTimeCapsule" and ptc :: "('b, 'v) PersistentTimeCapsule"
  assumes "ctx_Err ctx now = Some e"
  shows "MemoryTimeCapsule_Store ctx key val u now tc = (Some (ContextError e), tc)
       \<and> MemoryTimeCapsule_Open ctx key now tc = (Inl (ContextError e), tc)
       \<and> MemoryTimeCapsule_Peek ctx key now tc = (Inl (ContextError e), tc)
       \<and> MemoryTimeCapsule_Delay ctx key d now tc = (Some (ContextError e), tc)
       \<and> MemoryTimeCapsule_Delete ctx key now tc = (Some (ContextError e), tc)
       \<and> MemoryTimeCapsule_Exists ctx key now tc = (False, tc)
       \<and> MemoryTimeCapsule_WaitForUnlock ctx key now env tc = (Inl (ContextError e), tc)
       \<and> PersistentTimeCapsule_Store ptc ctx key val u now b = (Some (ContextError e), b)
       \<and> PersistentTimeCapsule_Open ptc ctx key now b = (Inl (ContextError e), b)
       \<and> PersistentTimeCapsule_Peek ptc ctx key now b = (Inl (ContextError e), b)
       \<and> PersistentTimeCapsule_Delay ptc ctx key d now b = (Some (ContextError e), b)
       \<and> PersistentTimeCapsule_Delete ptc ctx key now b = (Some (ContextError e), b)
       \<and> PersistentTimeCapsule_Exists ptc ctx key now b = (False, b)
       \<and> PersistentTimeCapsule_WaitForUnlock ptc ctx key now benv b
           = (Inl (ContextError e), b)"
  by (simp add: Memory_cancelled [OF assms] Persistent_cancelled [OF assms])

theorem C8_cancelled_context_no_effect_witness:
  "MemoryTimeCapsule_Store (DoneAt 5 Canceled) ''x'' [7] 20 6
      \<lparr>capsules = [''x'' \<mapsto> \<lparr>Value = [1, 2 :: 8 word], UnlockTime = 10, CreatedAt = 0\<rparr>]\<rparr>
     = (Some (ContextError Canceled),
        \<lparr>capsules = [''x'' \<mapsto> \<lparr>Value = [1, 2 :: 8 word], UnlockTime = 10, CreatedAt = 0\<rparr>]\<rparr>)
   \<and> MemoryTimeCapsule_Delete (DoneAt 5 Canceled) ''x'' 6
      \<lparr>capsules = [''x'' \<mapsto> \<lparr>Value = [1, 2 :: 8 word], UnlockTime = 10, CreatedAt = 0\<rparr>]\<rparr>
     = (Some (ContextError Canceled),
        \<lparr>capsules = [''x'' \<mapsto> \<lparr>Value = [1, 2 :: 8 word], UnlockTime = 10, CreatedAt = 0\<rparr>]\<rparr>)
   \<and> PersistentTimeCapsule_Delay (NewWithStorage MemoryStorage \<lparr>Encode = Inr, Decode = Inr\<rparr>)
        (DoneAt 5 Canceled) ''x'' 3 6
        \<lparr>capsules = [''x'' \<mapsto> \<lparr>Value = [1, 2 :: 8 word], UnlockTime = 10, CreatedAt = 0\<rparr>]\<rparr>
     = (Some (ContextError Canceled),
        \<lparr>capsules = [''x'' \<mapsto> \<lparr>Value = [1, 2 :: 8 word], UnlockTime = 10, CreatedAt = 0\<rparr>]\<rparr>)"
proof -
  have cancelled: "ctx_Err (DoneAt 5 Canceled) 6 = Some Canceled" by simp
  show ?thesis
    using C8_cancelled_context_no_effect [OF cancelled,
        where key = "''x''" and val = "[7 :: 8 word]" and u = 20 and d = 3
          and tc = "\<lparr>capsules = [''x'' \<mapsto> \<lparr>Value = [1, 2 :: 8 word], UnlockTime = 10, CreatedAt = 0\<rparr>]\<rparr>"
          and env = "\<lparr>during_wait = (\<lambda>s. s), ctx_first = False, lag = 0\<rparr>"
          and ptc = "NewWithStorage MemoryStorage \<lparr>Encode = Inr, Decode = Inr\<rparr>"
          and b = "\<lparr>capsules = [''x'' \<mapsto> \<lparr>Value = [1, 2 :: 8 word], UnlockTime = 10, CreatedAt = 0\<rparr>]\<rparr>"
          and benv = "\<lparr>during_wait = (\<lambda>s. s), ctx_first = False, lag = 0\<rparr>"]
    by blast
qed

section \<open>Cancellation comes before key validation\<close>

lemma Memory_empty_key:
  fixes tc :: "'v MemoryTimeCapsule"
  assumes "ctx_Err ctx now = None"
  shows "MemoryTimeCapsule_Store ctx [] val u now tc = (Some ErrInvalidKey, tc)"
    and "MemoryTimeCapsule_Open ctx [] now tc = (Inl ErrInvalidKey, tc)"
    and "MemoryTimeCapsule_Peek ctx [] now tc = (Inl ErrInvalidKey, tc)"
    and "MemoryTimeCapsule_Delay ctx [] d now tc = (Some ErrInvalidKey, tc)"
    and "MemoryTimeCapsule_Delete ctx [] now tc = (Some ErrInvalidKey, tc)"
    and "MemoryTimeCapsule_Exists ctx [] now tc = (False, tc)"
    and "MemoryTimeCapsule_WaitForUnlock ctx [] now env tc = (Inl ErrInvalidKey, tc)"
  using assms
  by (simp_all add: MemoryTimeCapsule_Store_def MemoryTimeCapsule_Open_def
      MemoryTimeCapsule_Peek_def MemoryTimeCapsule_Delay_def MemoryTimeCapsule_Delete_def
      MemoryTimeCapsule_Exists_def MemoryTimeCapsule_WaitForUnlock_def)

lemma Persistent_empty_key:
  fixes ptc :: "('b, 'v) PersistentTimeCapsule"
  assumes "ctx_Err ctx now = None"
  shows "PersistentTimeCapsule_Store ptc ctx [] val u now b = (Some ErrInvalidKey, b)"
    and "PersistentTimeCapsule_Open ptc ctx [] now b = (Inl ErrInvalidKey, b)"
    and "PersistentTimeCapsule_Peek ptc ctx [] now b = (Inl ErrInvalidKey, b)"
    and "PersistentTimeCapsule_Delay ptc ctx [] d now b = (Some ErrInvalidKey, b)"
    and "PersistentTimeCapsule_Delete ptc ctx [] now b = (Some ErrInvalidKey, b)"
    and "PersistentTimeCapsule_Exists ptc ctx [] now b = (False, b)"
    and "PersistentTimeCapsule_WaitForUnlock ptc ctx [] now benv b = (Inl ErrInvalidKey, b)"
  using assms
  by (simp_all add: PersistentTimeCapsule_Store_def PersistentTimeCapsule_Open_def
      PersistentTimeCapsule_Peek_def PersistentTimeCapsule_Delay_def
      PersistentTimeCapsule_Delete_def PersistentTimeCapsule_Exists_def
      PersistentTimeCapsule_WaitForUnlock_def)

text \<open>
  C10. Called with the empty key under a context that is already cancelled, every
  method of both stores returns the context's error (\<open>Exists\<close>: \<open>False\<close>), which is
  not \<open>ErrInvalidKey\<close>.
\<close>

theorem C10_cancellation_before_key_check:
  fixes tc :: "'v MemoryTimeCapsule" and ptc :: "('b, 'v) PersistentTimeCapsule"
  assumes "ctx_Err ctx now = Some e"
  shows "fst (MemoryTimeCapsule_Store ctx [] val u now tc) = Some (ContextError e)
       \<and> fst (MemoryTimeCapsule_Open ctx [] now tc) = Inl (ContextError e)
       \<and> fst (MemoryTimeCapsule_Peek ctx [] now tc) = Inl (ContextError e)
       \<and> fst (MemoryTimeCapsule_Delay ctx [] d now tc) = Some (ContextError e)
       \<and> fst (MemoryTimeCapsule_Delete ctx [] now tc) = Some (ContextError e)
       \<and> fst (MemoryTimeCapsule_Exists ctx [] now tc) = False
       \<and> fst (MemoryTimeCapsule_WaitForUnlock ctx [] now env tc) = Inl (ContextError e)
       \<and> fst (PersistentTimeCapsule_Store ptc ctx [] val u now b) = Some (ContextError e)
       \<and> fst (PersistentTimeCapsule_Open ptc ctx [] now b) = Inl (ContextError e)
       \<and> fst (PersistentTimeCapsule_Peek ptc ctx [] now b) = Inl (ContextError e)
       \<and> fst (PersistentTimeCapsule_Delay ptc ctx [] d now b) = Some (ContextError e)
       \<and> fst (PersistentTimeCapsule_Delete ptc ctx [] now b) = Some (ContextError e)
       \<and> fst (PersistentTimeCapsule_Exists ptc ctx [] now b) = False
       \<and> fst (PersistentTimeCapsule_WaitForUnlock ptc ctx [] now benv b)
           = Inl (ContextError e)
       \<and> ContextError e \<noteq> ErrInvalidKey"
  by (simp add: Memory_cancelled [OF assms] Persistent_cancelled [OF assms])

theorem C10_cancellation_before_key_check_witness:
  "fst (MemoryTimeCapsule_Store (DoneAt 5 Canceled) [] [7 :: 8 word] 20 6 New)
     = Some (ContextError Canceled)
   \<and> fst (MemoryTimeCapsule_Store Background [] [7 :: 8 word] 20 6 New) = Some ErrInvalidKey
   \<and> fst (PersistentTimeCapsule_Open
            (NewWithStorage MemoryStorage \<lparr>Encode = Inr, Decode = Inr\<rparr>)
            (DoneAt 5 Canceled) [] 6 New)
     = Inl (ContextError Canceled)
   \<and> fst (PersistentTimeCapsule_Open
            (NewWithStorage MemoryStorage \<lparr>Encode = Inr, Decode = Inr\<rparr>)
            Background [] 6 New)
     = Inl ErrInvalidKey"
proof -
  have cancelled: "ctx_Err (DoneAt 5 Canceled) 6 = Some Canceled" by simp
  have live: "ctx_Err Background 6 = None" by simp
  show ?thesis
    using C10_cancellation_before_key_check [OF cancelled,
        where val = "[7 :: 8 word]" and u = 20 and d = 3 and tc = New
          and env = "\<lparr>during_wait = (\<lambda>s. s), ctx_first = False, lag = 0\<rparr>"
          and ptc = "NewWithStorage MemoryStorage \<lparr>Encode = Inr, Decode = Inr\<rparr>"
          and b = New
          and benv = "\<lparr>during_wait = (\<lambda>s. s), ctx_first = False, lag = 0\<rparr>"]
    by (simp add: Memory_empty_key [OF live] Persistent_empty_key [OF live])
qed

section \<open>Exists\<close>

text \<open>
  C9. \<open>Exists\<close> returns a boolean and nothing else. On the in-memory store it is
  \<open>True\<close> exactly when the context is not cancelled, the key is not empty and a
  record is under the key, whether that record is locked or not at the instant of the
  call; the store is left as found. On the backend-delegating store it is \<open>False\<close>
  when the context is cancelled or the key is empty, and the backend's own answer
  otherwise; over the in-memory backend that is again the presence of a record.
\<close>

theorem C9_exists_never_fails:
  fixes tc :: "'v MemoryTimeCapsule" and ptc :: "('b, 'v) PersistentTimeCapsule"
  shows "fst (MemoryTimeCapsule_Exists ctx k now tc)
           = (ctx_Err ctx now = None \<and> k \<noteq> [] \<and> capsules tc k \<noteq> None)
       \<and> snd (MemoryTimeCapsule_Exists ctx k now tc) = tc
       \<and> (ctx_Err ctx now = None \<and> k \<noteq> [] \<and> capsules tc k = Some c \<longrightarrow>
            fst (MemoryTimeCapsule_Exists ctx k now tc))
       \<and> (ctx_Err ctx now \<noteq> None \<or> k = [] \<longrightarrow>
            PersistentTimeCapsule_Exists ptc ctx k now b = (False, b))
       \<and> (ctx_Err ctx now = None \<and> k \<noteq> [] \<longrightarrow>
            PersistentTimeCapsule_Exists ptc ctx k now b
              = storage_Exists (storage ptc) ctx k now b)
       \<and> fst (PersistentTimeCapsule_Exists (NewWithStorage MemoryStorage cd) ctx k now mb)
           = (ctx_Err ctx now = None \<and> k \<noteq> [] \<and> capsules mb k \<noteq> None)"
  by (auto simp add: MemoryTimeCapsule_Exists_def PersistentTimeCapsule_Exists_def
      NewWithStorage_def MemoryStorage_def split: option.split)

theorem C9_exists_never_fails_witness:
  "fst (MemoryTimeCapsule_Exists Background ''x'' 3
          \<lparr>capsules = [''x'' \<mapsto> \<lparr>Value = [1, 2 :: 8 word], UnlockTime = 10, CreatedAt = 0\<rparr>]\<rparr>)
   \<and> fst (MemoryTimeCapsule_Exists Background ''x'' 30
          \<lparr>capsules = [''x'' \<mapsto> \<lparr>Value = [1, 2 :: 8 word], UnlockTime = 10, CreatedAt = 0\<rparr>]\<rparr>)
   \<and> \<not> fst (MemoryTimeCapsule_Exists Background ''y'' 3
          \<lparr>capsules = [''x'' \<mapsto> \<lparr>Value = [1, 2 :: 8 word], UnlockTime = 10, CreatedAt = 0\<rparr>]\<rparr>)
   \<and> \<not> fst (MemoryTimeCapsule_Exists (DoneAt 2 DeadlineExceeded) ''x'' 3
          \<lparr>capsules = [''x'' \<mapsto> \<lparr>Value = [1, 2 :: 8 word], UnlockTime = 10, CreatedAt = 0\<rparr>]\<rparr>)
   \<and> \<not> fst (MemoryTimeCapsule_Exists Background [] 3
          \<lparr>capsules = [''x'' \<mapsto> \<lparr>Value = [1, 2 :: 8 word], UnlockTime = 10, CreatedAt = 0\<rparr>]\<rparr>)
   \<and> fst (PersistentTimeCapsule_Exists
            (NewWithStorage MemoryStorage \<lparr>Encode = Inr, Decode = Inr\<rparr>) Background ''x'' 3
          \<lparr>capsules = [''x'' \<mapsto> \<lparr>Value = [1, 2 :: 8 word], UnlockTime = 10, CreatedAt = 0\<rparr>]\<rparr>)"
  using C9_exists_never_fails [of Background "''x''" 3
      "\<lparr>capsules = [''x'' \<mapsto> \<lparr>Value = [1, 2 :: 8 word], UnlockTime = 10, CreatedAt = 0\<rparr>]\<rparr>"
      "\<lparr>Value = [1, 2 :: 8 word], UnlockTime = 10, CreatedAt = 0\<rparr>"
      "NewWithStorage MemoryStorage \<lparr>Encode = Inr, Decode = Inr\<rparr>"
      "\<lparr>capsules = [''x'' \<mapsto> \<lparr>Value = [1, 2 :: 8 word], UnlockTime = 10, CreatedAt = 0\<rparr>]\<rparr>"
      "\<lparr>Encode = Inr, Decode = Inr\<rparr>"
      "\<lparr>capsules = [''x'' \<mapsto> \<lparr>Value = [1, 2 :: 8 word], UnlockTime = 10, CreatedAt = 0\<rparr>]\<rparr>"]
    C9_exists_never_fails [of Background "''x''" 30
      "\<lparr>capsules = [''x'' \<mapsto> \<lparr>Value = [1, 2 :: 8 word], UnlockTime = 10, CreatedAt = 0\<rparr>]\<rparr>"
      "\<lparr>Value = [1, 2 :: 8 word], UnlockTime = 10, CreatedAt = 0\<rparr>"
      "NewWithStorage MemoryStorage \<lparr>Encode = Inr, Decode = Inr\<rparr>"
      "\<lparr>capsules = [''x'' \<mapsto> \<lparr>Value = [1, 2 :: 8 word], UnlockTime = 10, CreatedAt = 0\<rparr>]\<rparr>"
      "\<lparr>Encode = Inr, Decode = Inr\<rparr>"
      "\<lparr>capsules = [''x'' \<mapsto> \<lparr>Value = [1, 2 :: 8 word], UnlockTime = 10, CreatedAt = 0\<rparr>]\<rparr>"]
  by (simp add: MemoryTimeCapsule_Exists_def NewWithStorage_def MemoryStorage_def)

section \<open>WaitForUnlock\<close>

text \<open>
  \<^verbatim>\<open>time.Until\<close> is the difference of the two instants capped to the range of a
  duration; for an unlock time that is still ahead it is positive and at most the
  difference.
\<close>

lemma time_Until_ahead:
  assumes "now < u"
  shows "time_Until u now = min (u - now) maxDuration"
  using assms by (simp add: time_Until_def maxDuration_def minDuration_def)

lemma time_Until_positive:
  assumes "now < u"
  shows "0 < time_Until u now"
  using assms by (simp add: time_Until_def maxDuration_def minDuration_def)

lemma ctx_Err_earlier:
  assumes "ctx_Err ctx t' = None" and "t \<le> t'"
  shows "ctx_Err ctx t = None"
  using assms by (cases ctx) (auto split: if_splits)

text \<open>
  Which case the \<^verbatim>\<open>select\<close> receives, and when its body runs.
\<close>

lemma select_Done_Timer_timer:
  assumes "ctx_Err ctx (now + max 0 d) = None"
  shows "select_Done_Timer ctx now d env = (Timer_C, now + max 0 d + int (lag env))"
  using assms
  by (cases ctx) (auto simp add: select_Done_Timer_def Let_def split: if_splits)

lemma select_Done_Timer_context:
  assumes "now < td" and "td < now + max 0 d"
  shows "select_Done_Timer (DoneAt td e) now d env = (Ctx_Done e, td + int (lag env))"
  using assms by (auto simp add: select_Done_Timer_def Let_def max_def)

lemma select_Done_Timer_tie:
  assumes "td = now + max 0 d"
  shows "select_Done_Timer (DoneAt td e) now d env
           = (if ctx_first env then Ctx_Done e else Timer_C, td + int (lag env))"
  using assms by (auto simp add: select_Done_Timer_def Let_def max_def)

lemma select_Done_Timer_Ctx_Done:
  assumes "select_Done_Timer ctx now d env = (Ctx_Done e, t)"
  shows "ctx_Err ctx t = Some e"
  using assms
  by (cases ctx) (auto simp add: select_Done_Timer_def Let_def split: if_splits)

lemma MemoryTimeCapsule_Peek_state:
  "snd (MemoryTimeCapsule_Peek ctx key now tc) = tc"
  by (simp add: MemoryTimeCapsule_Peek_def split: option.split)

lemma MemoryTimeCapsule_Peek_errors:
  assumes "ctx_Err ctx now = None" and "fst (MemoryTimeCapsule_Peek ctx key now tc) = Inl err"
  shows "err = ErrInvalidKey \<or> err = ErrCapsuleNotFound"
  using assms by (auto simp add: MemoryTimeCapsule_Peek_def split: if_splits option.splits)

lemma MemoryTimeCapsule_Peek_locked:
  assumes "fst (MemoryTimeCapsule_Peek ctx key now tc) = Inr m" and "IsLocked m"
  shows "now < MetaUnlockTime m"
  using assms by (auto simp add: MemoryTimeCapsule_Peek_def split: if_splits option.splits)

lemma MemoryTimeCapsule_Peek_key:
  assumes "ctx_Err ctx now = None" and "fst (MemoryTimeCapsule_Peek ctx key now tc) = Inr m"
  shows "key \<noteq> []"
  using assms by (auto simp add: MemoryTimeCapsule_Peek_def)

lemma Memory_WaitForUnlock_peek_error:
  assumes "ctx_Err ctx now = None" and "fst (MemoryTimeCapsule_Peek ctx key now tc) = Inl err"
  shows "MemoryTimeCapsule_WaitForUnlock ctx key now env tc = (Inl err, tc)"
proof -
  from assms(2) MemoryTimeCapsule_Peek_state [of ctx key now tc]
  have "MemoryTimeCapsule_Peek ctx key now tc = (Inl err, tc)"
    by (cases "MemoryTimeCapsule_Peek ctx key now tc") simp
  with assms(1) show ?thesis by (simp add: MemoryTimeCapsule_WaitForUnlock_def)
qed

lemma Memory_WaitForUnlock_unlocked:
  assumes "ctx_Err ctx now = None" and "fst (MemoryTimeCapsule_Peek ctx key now tc) = Inr m"
    and "\<not> IsLocked m"
  shows "MemoryTimeCapsule_WaitForUnlock ctx key now env tc
           = MemoryTimeCapsule_Open ctx key now tc"
proof -
  from assms(2) MemoryTimeCapsule_Peek_state [of ctx key now tc]
  have "MemoryTimeCapsule_Peek ctx key now tc = (Inr m, tc)"
    by (cases "MemoryTimeCapsule_Peek ctx key now tc") simp
  with assms(1,3) show ?thesis by (simp add: MemoryTimeCapsule_WaitForUnlock_def)
qed

text \<open>
  The locked branch, case by case of the \<^verbatim>\<open>select\<close>.
\<close>

lemma Memory_WaitForUnlock_select:
  assumes "ctx_Err ctx now = None" and "fst (MemoryTimeCapsule_Peek ctx key now tc) = Inr m"
    and "IsLocked m"
  shows "MemoryTimeCapsule_WaitForUnlock ctx key now env tc =
           (case select_Done_Timer ctx now (time_Until (MetaUnlockTime m) now) env of
              (Ctx_Done err, t) \<Rightarrow> (Inl (ContextError err), during_wait env tc)
            | (Timer_C, t) \<Rightarrow> MemoryTimeCapsule_Open ctx key t (during_wait env tc))"
proof -
  from assms(2) MemoryTimeCapsule_Peek_state [of ctx key now tc]
  have "MemoryTimeCapsule_Peek ctx key now tc = (Inr m, tc)"
    by (cases "MemoryTimeCapsule_Peek ctx key now tc") simp
  with assms(1,3) show ?thesis by (simp add: MemoryTimeCapsule_WaitForUnlock_def)
qed

lemma Memory_WaitForUnlock_timer:
  assumes live: "ctx_Err ctx now = None"
    and peek: "fst (MemoryTimeCapsule_Peek ctx key now tc) = Inr m"
    and locked: "IsLocked m"
    and fire: "fire = now + time_Until (MetaUnlockTime m) now"
    and ctx: "ctx_Err ctx fire = None"
  shows "MemoryTimeCapsule_WaitForUnlock ctx key now env tc
           = MemoryTimeCapsule_Open ctx key (fire + int (lag env)) (during_wait env tc)"
proof -
  have "0 < time_Until (MetaUnlockTime m) now"
    by (rule time_Until_positive [OF MemoryTimeCapsule_Peek_locked [OF peek locked]])
  then have "fire = now + max 0 (time_Until (MetaUnlockTime m) now)"
    using fire by simp
  with ctx have "select_Done_Timer ctx now (time_Until (MetaUnlockTime m) now) env
      = (Timer_C, fire + int (lag env))"
    by (simp add: select_Done_Timer_timer)
  then show ?thesis
    by (simp add: Memory_WaitForUnlock_select [OF live peek locked])
qed

lemma Memory_WaitForUnlock_context:
  assumes live: "ctx_Err (DoneAt td e) now = None"
    and peek: "fst (MemoryTimeCapsule_Peek (DoneAt td e) key now tc) = Inr m"
    and locked: "IsLocked m"
    and fire: "fire = now + time_Until (MetaUnlockTime m) now"
    and ctx: "td \<le> fire"
  shows "MemoryTimeCapsule_WaitForUnlock (DoneAt td e) key now env tc
           = (Inl (ContextError e), during_wait env tc)"
proof -
  have pos: "0 < time_Until (MetaUnlockTime m) now"
    by (rule time_Until_positive [OF MemoryTimeCapsule_Peek_locked [OF peek locked]])
  from live have now: "now < td" by (simp split: if_splits)
  show ?thesis
  proof (cases "td < fire")
    case True
    with now fire pos
    have "select_Done_Timer (DoneAt td e) now (time_Until (MetaUnlockTime m) now) env
        = (Ctx_Done e, td + int (lag env))"
      by (simp add: select_Done_Timer_context)
    then show ?thesis
      by (simp add: Memory_WaitForUnlock_select [OF live peek locked])
  next
    case False
    with ctx fire pos have tie: "td = now + max 0 (time_Until (MetaUnlockTime m) now)"
      by simp
    have "MemoryTimeCapsule_Open (DoneAt td e) key (td + int (lag env)) (during_wait env tc)
        = (Inl (ContextError e), during_wait env tc)"
      by (simp add: MemoryTimeCapsule_Open_def)
    then show ?thesis
      by (simp add: Memory_WaitForUnlock_select [OF live peek locked]
          select_Done_Timer_tie [OF tie])
  qed
qed

lemma Persistent_WaitForUnlock_peek_error:
  assumes "ctx_Err ctx now = None"
    and "PersistentTimeCapsule_Peek ptc ctx key now b = (Inl err, b1)"
  shows "PersistentTimeCapsule_WaitForUnlock ptc ctx key now env b = (Inl err, b1)"
  using assms by (simp add: PersistentTimeCapsule_WaitForUnlock_def)

lemma Persistent_WaitForUnlock_unlocked:
  assumes "ctx_Err ctx now = None"
    and "PersistentTimeCapsule_Peek ptc ctx key now b = (Inr m, b1)"
    and "\<not> IsLocked m"
  shows "PersistentTimeCapsule_WaitForUnlock ptc ctx key now env b
           = PersistentTimeCapsule_Open ptc ctx key now b1"
  using assms by (simp add: PersistentTimeCapsule_WaitForUnlock_def)

lemma Persistent_WaitForUnlock_select:
  assumes "ctx_Err ctx now = None"
    and "PersistentTimeCapsule_Peek ptc ctx key now b = (Inr m, b1)"
    and "IsLocked m"
  shows "PersistentTimeCapsule_WaitForUnlock ptc ctx key now env b =
           (case select_Done_Timer ctx now (time_Until (MetaUnlockTime m) now) env of
              (Ctx_Done err, t) \<Rightarrow> (Inl (ContextError err), during_wait env b1)
            | (Timer_C, t) \<Rightarrow> PersistentTimeCapsule_Open ptc ctx key t (during_wait env b1))"
  using assms by (simp add: PersistentTimeCapsule_WaitForUnlock_def)

lemma Persistent_WaitForUnlock_timer:
  assumes live: "ctx_Err ctx now = None"
    and peek: "PersistentTimeCapsule_Peek ptc ctx key now b = (Inr m, b1)"
    and locked: "IsLocked m"
    and fire: "fire = now + max 0 (time_Until (MetaUnlockTime m) now)"
    and ctx: "ctx_Err ctx fire = None"
  shows "PersistentTimeCapsule_WaitForUnlock ptc ctx key now env b
           = PersistentTimeCapsule_Open ptc ctx key (fire + int (lag env)) (during_wait env b1)"
proof -
  from ctx fire
  have "select_Done_Timer ctx now (time_Until (MetaUnlockTime m) now) env
      = (Timer_C, fire + int (lag env))"
    by (simp add: select_Done_Timer_timer)
  then show ?thesis
    by (simp add: Persistent_WaitForUnlock_select [OF live peek locked])
qed

lemma Persistent_WaitForUnlock_context:
  assumes live: "ctx_Err (DoneAt td e) now = None"
    and peek: "PersistentTimeCapsule_Peek ptc (DoneAt td e) key now b = (Inr m, b1)"
    and locked: "IsLocked m"
    and fire: "fire = now + max 0 (time_Until (MetaUnlockTime m) now)"
    and ctx: "td \<le> fire"
  shows "PersistentTimeCapsule_WaitForUnlock ptc (DoneAt td e) key now env b
           = (Inl (ContextError e), during_wait env b1)"
proof -
  from live have now: "now < td" by (simp split: if_splits)
  show ?thesis
  proof (cases "td < fire")
    case True
    with now fire
    have "select_Done_Timer (DoneAt td e) now (time_Until (MetaUnlockTime m) now) env
        = (Ctx_Done e, td + int (lag env))"
      by (simp add: select_Done_Timer_context)
    then show ?thesis
      by (simp add: Persistent_WaitForUnlock_select [OF live peek locked])
  next
    case False
    with ctx fire have tie: "td = now + max 0 (time_Until (MetaUnlockTime m) now)"
      by simp
    have "PersistentTimeCapsule_Open ptc (DoneAt td e) key (td + int (lag env))
            (during_wait env b1)
        = (Inl (ContextError e), during_wait env b1)"
      by (simp add: PersistentTimeCapsule_Open_def)
    then show ?thesis
      by (simp add: Persistent_WaitForUnlock_select [OF live peek locked]
          select_Done_Timer_tie [OF tie])
  qed
qed

lemma Memory_WaitForUnlock_locked:
  fixes tc :: "'v MemoryTimeCapsule"
  assumes live: "ctx_Err ctx now = None"
    and peek: "fst (MemoryTimeCapsule_Peek ctx key now tc) = Inr m"
    and locked: "IsLocked m"
    and fire: "fire = now + time_Until (MetaUnlockTime m) now"
  shows "time_Until (MetaUnlockTime m) now = min (MetaUnlockTime m - now) maxDuration
       \<and> now < fire
       \<and> (ctx_Err ctx fire = None \<longrightarrow>
            select_Done_Timer ctx now (time_Until (MetaUnlockTime m) now) env
              = (Timer_C, fire + int (lag env))
          \<and> MemoryTimeCapsule_WaitForUnlock ctx key now env tc
              = MemoryTimeCapsule_Open ctx key (fire + int (lag env)) (during_wait env tc))
       \<and> (ctx = DoneAt td e' \<and> td < fire \<longrightarrow>
            select_Done_Timer ctx now (time_Until (MetaUnlockTime m) now) env
              = (Ctx_Done e', td + int (lag env))
          \<and> MemoryTimeCapsule_WaitForUnlock ctx key now env tc
              = (Inl (ContextError e'), during_wait env tc))
       \<and> (ctx = DoneAt fire e' \<longrightarrow>
            MemoryTimeCapsule_WaitForUnlock ctx key now env tc
              = (Inl (ContextError e'), during_wait env tc))
       \<and> (ctx_Err ctx (fire + int (lag env)) = None
            \<and> capsules (during_wait env tc) key = None \<longrightarrow>
            fst (MemoryTimeCapsule_WaitForUnlock ctx key now env tc) = Inl ErrCapsuleNotFound)
       \<and> (ctx_Err ctx (fire + int (lag env)) = None
            \<and> capsules (during_wait env tc) key = Some c'
            \<and> fire + int (lag env) < UnlockTime c' \<longrightarrow>
            fst (MemoryTimeCapsule_WaitForUnlock ctx key now env tc) = Inl ErrCapsuleLocked)
       \<and> (ctx_Err ctx (fire + int (lag env)) = None
            \<and> capsules (during_wait env tc) key = Some c'
            \<and> UnlockTime c' \<le> fire + int (lag env) \<longrightarrow>
            fst (MemoryTimeCapsule_WaitForUnlock ctx key now env tc) = Inr (Value c'))"
proof -
  have ahead: "now < MetaUnlockTime m"
    by (rule MemoryTimeCapsule_Peek_locked [OF peek locked])
  have key: "key \<noteq> []"
    by (rule MemoryTimeCapsule_Peek_key [OF live peek])
  have pos: "0 < time_Until (MetaUnlockTime m) now"
    by (rule time_Until_positive [OF ahead])
  have capped: "time_Until (MetaUnlockTime m) now = min (MetaUnlockTime m - now) maxDuration"
    by (rule time_Until_ahead [OF ahead])
  have later: "now < fire"
    using pos fire by simp
  have fire': "fire = now + max 0 (time_Until (MetaUnlockTime m) now)"
    using pos fire by simp
  have timer: "ctx_Err ctx fire = None \<longrightarrow>
      select_Done_Timer ctx now (time_Until (MetaUnlockTime m) now) env
        = (Timer_C, fire + int (lag env))
    \<and> MemoryTimeCapsule_WaitForUnlock ctx key now env tc
        = MemoryTimeCapsule_Open ctx key (fire + int (lag env)) (during_wait env tc)"
    using Memory_WaitForUnlock_timer [OF live peek locked fire, of env]
      select_Done_Timer_timer [of ctx now "time_Until (MetaUnlockTime m) now" env]
    by (simp add: fire')
  have done_first: "ctx = DoneAt td e' \<and> td < fire \<longrightarrow>
      select_Done_Timer ctx now (time_Until (MetaUnlockTime m) now) env
        = (Ctx_Done e', td + int (lag env))
    \<and> MemoryTimeCapsule_WaitForUnlock ctx key now env tc
        = (Inl (ContextError e'), during_wait env tc)"
  proof (intro impI, elim conjE)
    assume ctx: "ctx = DoneAt td e'" and before: "td < fire"
    from live ctx have "now < td" by (simp split: if_splits)
    with before fire'
    have "select_Done_Timer (DoneAt td e') now (time_Until (MetaUnlockTime m) now) env
        = (Ctx_Done e', td + int (lag env))"
      by (simp add: select_Done_Timer_context)
    moreover have "MemoryTimeCapsule_WaitForUnlock (DoneAt td e') key now env tc
        = (Inl (ContextError e'), during_wait env tc)"
      using Memory_WaitForUnlock_context [of td e' now key tc m fire env]
        live peek locked fire before ctx
      by simp
    ultimately show "select_Done_Timer ctx now (time_Until (MetaUnlockTime m) now) env
        = (Ctx_Done e', td + int (lag env))
      \<and> MemoryTimeCapsule_WaitForUnlock ctx key now env tc
        = (Inl (ContextError e'), during_wait env tc)"
      using ctx by simp
  qed
  have tie: "ctx = DoneAt fire e' \<longrightarrow>
      MemoryTimeCapsule_WaitForUnlock ctx key now env tc
        = (Inl (ContextError e'), during_wait env tc)"
  proof
    assume ctx: "ctx = DoneAt fire e'"
    have "MemoryTimeCapsule_WaitForUnlock (DoneAt fire e') key now env tc
        = (Inl (ContextError e'), during_wait env tc)"
      by (rule Memory_WaitForUnlock_context
          [OF live [unfolded ctx] peek [unfolded ctx] locked fire order_refl])
    then show "MemoryTimeCapsule_WaitForUnlock ctx key now env tc
        = (Inl (ContextError e'), during_wait env tc)"
      by (simp only: ctx)
  qed
  have woken: "ctx_Err ctx (fire + int (lag env)) = None \<longrightarrow>
      MemoryTimeCapsule_WaitForUnlock ctx key now env tc
        = MemoryTimeCapsule_Open ctx key (fire + int (lag env)) (during_wait env tc)"
    using timer ctx_Err_earlier [of ctx "fire + int (lag env)" fire] by simp
  have deleted: "ctx_Err ctx (fire + int (lag env)) = None
      \<and> capsules (during_wait env tc) key = None \<longrightarrow>
      fst (MemoryTimeCapsule_WaitForUnlock ctx key now env tc) = Inl ErrCapsuleNotFound"
    using woken key by (simp add: MemoryTimeCapsule_Open_def)
  have delayed: "ctx_Err ctx (fire + int (lag env)) = None
      \<and> capsules (during_wait env tc) key = Some c'
      \<and> fire + int (lag env) < UnlockTime c' \<longrightarrow>
      fst (MemoryTimeCapsule_WaitForUnlock ctx key now env tc) = Inl ErrCapsuleLocked"
    using woken key by (simp add: MemoryTimeCapsule_Open_def)
  have opened: "ctx_Err ctx (fire + int (lag env)) = None
      \<and> capsules (during_wait env tc) key = Some c'
      \<and> UnlockTime c' \<le> fire + int (lag env) \<longrightarrow>
      fst (MemoryTimeCapsule_WaitForUnlock ctx key now env tc) = Inr (Value c')"
    using woken key by (simp add: MemoryTimeCapsule_Open_def)
  from capped later timer done_first tie deleted delayed opened
  show ?thesis by (intro conjI)
qed

lemma Persistent_WaitForUnlock_locked:
  fixes ptc :: "('b, 'w) PersistentTimeCapsule"
  assumes live: "ctx_Err ctx now = None"
    and peek: "PersistentTimeCapsule_Peek ptc ctx key now b = (Inr pm, b')"
    and locked: "IsLocked pm"
    and fire: "pfire = now + max 0 (time_Until (MetaUnlockTime pm) now)"
  shows "(ctx_Err ctx pfire = None \<longrightarrow>
            select_Done_Timer ctx now (time_Until (MetaUnlockTime pm) now) benv
              = (Timer_C, pfire + int (lag benv))
          \<and> PersistentTimeCapsule_WaitForUnlock ptc ctx key now benv b
              = PersistentTimeCapsule_Open ptc ctx key (pfire + int (lag benv))
                  (during_wait benv b'))
       \<and> (ctx = DoneAt td e' \<and> td < pfire \<longrightarrow>
            select_Done_Timer ctx now (time_Until (MetaUnlockTime pm) now) benv
              = (Ctx_Done e', td + int (lag benv))
          \<and> PersistentTimeCapsule_WaitForUnlock ptc ctx key now benv b
              = (Inl (ContextError e'), during_wait benv b'))
       \<and> (ctx = DoneAt pfire e' \<longrightarrow>
            PersistentTimeCapsule_WaitForUnlock ptc ctx key now benv b
              = (Inl (ContextError e'), during_wait benv b'))"
proof -
  have timer: "ctx_Err ctx pfire = None \<longrightarrow>
      select_Done_Timer ctx now (time_Until (MetaUnlockTime pm) now) benv
        = (Timer_C, pfire + int (lag benv))
    \<and> PersistentTimeCapsule_WaitForUnlock ptc ctx key now benv b
        = PersistentTimeCapsule_Open ptc ctx key (pfire + int (lag benv))
            (during_wait benv b')"
    using Persistent_WaitForUnlock_timer [OF live peek locked fire, of benv]
      select_Done_Timer_timer [of ctx now "time_Until (MetaUnlockTime pm) now" benv]
    by (simp add: fire)
  have done_first: "ctx = DoneAt td e' \<and> td < pfire \<longrightarrow>
      select_Done_Timer ctx now (time_Until (MetaUnlockTime pm) now) benv
        = (Ctx_Done e', td + int (lag benv))
    \<and> PersistentTimeCapsule_WaitForUnlock ptc ctx key now benv b
        = (Inl (ContextError e'), during_wait benv b')"
  proof (intro impI, elim conjE)
    assume ctx: "ctx = DoneAt td e'" and before: "td < pfire"
    from live ctx have "now < td" by (simp split: if_splits)
    with before fire
    have "select_Done_Timer (DoneAt td e') now (time_Until (MetaUnlockTime pm) now) benv
        = (Ctx_Done e', td + int (lag benv))"
      by (simp add: select_Done_Timer_context)
    moreover have "PersistentTimeCapsule_WaitForUnlock ptc (DoneAt td e') key now benv b
        = (Inl (ContextError e'), during_wait benv b')"
      using Persistent_WaitForUnlock_context [of td e' now ptc key b pm b' pfire benv]
        live peek locked fire before ctx
      by simp
    ultimately show "select_Done_Timer ctx now (time_Until (MetaUnlockTime pm) now) benv
        = (Ctx_Done e', td + int (lag benv))
      \<and> PersistentTimeCapsule_WaitForUnlock ptc ctx key now benv b
        = (Inl (ContextError e'), during_wait benv b')"
      using ctx by simp
  qed
  have tie: "ctx = DoneAt pfire e' \<longrightarrow>
      PersistentTimeCapsule_WaitForUnlock ptc ctx key now benv b
        = (Inl (ContextError e'), during_wait benv b')"
  proof
    assume ctx: "ctx = DoneAt pfire e'"
    have "PersistentTimeCapsule_WaitForUnlock ptc (DoneAt pfire e') key now benv b
        = (Inl (ContextError e'), during_wait benv b')"
      by (rule Persistent_WaitForUnlock_context
          [OF live [unfolded ctx] peek [unfolded ctx] locked fire order_refl])
    then show "PersistentTimeCapsule_WaitForUnlock ptc ctx key now benv b
        = (Inl (ContextError e'), during_wait benv b')"
      by (simp only: ctx)
  qed
  from timer done_first tie show ?thesis by (intro conjI)
qed

text \<open>
  C3. \<open>WaitForUnlock(k)\<close> has no loop and waits at most once, on both stores:
  \<^item> under a context already cancelled it returns the context's error and the store
    untouched;
  \<^item> when its \<open>Peek(k)\<close> fails it returns that error (on the in-memory store:
    \<open>ErrInvalidKey\<close> or \<open>ErrCapsuleNotFound\<close>);
  \<^item> when \<open>Peek\<close> reports the capsule unlocked it returns what \<open>Open(k)\<close> returns
    at that instant;
  \<^item> otherwise it blocks once, on a timer of duration \<^verbatim>\<open>time.Until\<close> of the unlock
    time \<open>Peek\<close> reported: the difference to \<open>now\<close>, capped at the largest duration.
    The timer fires at \<open>fire\<close>. If the context is not done by then, the timer is
    received and the result is what one \<open>Open(k)\<close> returns when the caller runs
    again, on the store as the other goroutines left it: \<open>ErrCapsuleNotFound\<close> for a
    record deleted during the wait, \<open>ErrCapsuleLocked\<close> for a record whose unlock time
    is then still ahead (delayed during the wait, or further away than the cap), the
    value otherwise. If the context is done before \<open>fire\<close>, the context is received
    and the result is its error; if it is done exactly at \<open>fire\<close> the result is its
    error whichever case the runtime picks. In no case does the call wait again.
\<close>

theorem C3_wait_for_unlock_single_attempt:
  fixes tc :: "'v MemoryTimeCapsule" and ptc :: "('b, 'w) PersistentTimeCapsule"
  shows "(ctx_Err ctx now = Some e \<longrightarrow>
            MemoryTimeCapsule_WaitForUnlock ctx key now env tc = (Inl (ContextError e), tc)
          \<and> PersistentTimeCapsule_WaitForUnlock ptc ctx key now benv b
              = (Inl (ContextError e), b))
       \<and> (ctx_Err ctx now = None \<and> fst (MemoryTimeCapsule_Peek ctx key now tc) = Inl err \<longrightarrow>
            MemoryTimeCapsule_WaitForUnlock ctx key now env tc = (Inl err, tc)
          \<and> (err = ErrInvalidKey \<or> err = ErrCapsuleNotFound))
       \<and> (ctx_Err ctx now = None \<and> fst (MemoryTimeCapsule_Peek ctx key now tc) = Inr m
            \<and> \<not> IsLocked m \<longrightarrow>
            MemoryTimeCapsule_WaitForUnlock ctx key now env tc
              = MemoryTimeCapsule_Open ctx key now tc)
       \<and> (ctx_Err ctx now = None \<and> fst (MemoryTimeCapsule_Peek ctx key now tc) = Inr m
            \<and> IsLocked m \<and> fire = now + time_Until (MetaUnlockTime m) now \<longrightarrow>
            time_Until (MetaUnlockTime m) now = min (MetaUnlockTime m - now) maxDuration
          \<and> now < fire
          \<and> (ctx_Err ctx fire = None \<longrightarrow>
                select_Done_Timer ctx now (time_Until (MetaUnlockTime m) now) env
                  = (Timer_C, fire + int (lag env))
              \<and> MemoryTimeCapsule_WaitForUnlock ctx key now env tc
                  = MemoryTimeCapsule_Open ctx key (fire + int (lag env))
                      (during_wait env tc))
          \<and> (ctx = DoneAt td e' \<and> td < fire \<longrightarrow>
                select_Done_Timer ctx now (time_Until (MetaUnlockTime m) now) env
                  = (Ctx_Done e', td + int (lag env))
              \<and> MemoryTimeCapsule_WaitForUnlock ctx key now env tc
                  = (Inl (ContextError e'), during_wait env tc))
          \<and> (ctx = DoneAt fire e' \<longrightarrow>
                MemoryTimeCapsule_WaitForUnlock ctx key now env tc
                  = (Inl (ContextError e'), during_wait env tc))
          \<and> (ctx_Err ctx (fire + int (lag env)) = None
                \<and> capsules (during_wait env tc) key = None \<longrightarrow>
                fst (MemoryTimeCapsule_WaitForUnlock ctx key now env tc)
                  = Inl ErrCapsuleNotFound)
          \<and> (ctx_Err ctx (fire + int (lag env)) = None
                \<and> capsules (during_wait env tc) key = Some c'
                \<and> fire + int (lag env) < UnlockTime c' \<longrightarrow>
                fst (MemoryTimeCapsule_WaitForUnlock ctx key now env tc)
                  = Inl ErrCapsuleLocked)
          \<and> (ctx_Err ctx (fire + int (lag env)) = None
                \<and> capsules (during_wait env tc) key = Some c'
                \<and> UnlockTime c' \<le> fire + int (lag env) \<longrightarrow>
                fst (MemoryTimeCapsule_WaitForUnlock ctx key now env tc)
                  = Inr (Value c')))
       \<and> (ctx_Err ctx now = None
            \<and> PersistentTimeCapsule_Peek ptc ctx key now b = (Inl err, b') \<longrightarrow>
            PersistentTimeCapsule_WaitForUnlock ptc ctx key now benv b = (Inl err, b'))
       \<and> (ctx_Err ctx now = None
            \<and> PersistentTimeCapsule_Peek ptc ctx key now b = (Inr pm, b')
            \<and> \<not> IsLocked pm \<longrightarrow>
            PersistentTimeCapsule_WaitForUnlock ptc ctx key now benv b
              = PersistentTimeCapsule_Open ptc ctx key now b')
       \<and> (ctx_Err ctx now = None
            \<and> PersistentTimeCapsule_Peek ptc ctx key now b = (Inr pm, b')
            \<and> IsLocked pm
            \<and> pfire = now + max 0 (time_Until (MetaUnlockTime pm) now) \<longrightarrow>
            (ctx_Err ctx pfire = None \<longrightarrow>
                select_Done_Timer ctx now (time_Until (MetaUnlockTime pm) now) benv
                  = (Timer_C, pfire + int (lag benv))
              \<and> PersistentTimeCapsule_WaitForUnlock ptc ctx key now benv b
                  = PersistentTimeCapsule_Open ptc ctx key (pfire + int (lag benv))
                      (during_wait benv b'))
          \<and> (ctx = DoneAt td e' \<and> td < pfire \<longrightarrow>
                select_Done_Timer ctx now (time_Until (MetaUnlockTime pm) now) benv
                  = (Ctx_Done e', td + int (lag benv))
              \<and> PersistentTimeCapsule_WaitForUnlock ptc ctx key now benv b
                  = (Inl (ContextError e'), during_wait benv b'))
          \<and> (ctx = DoneAt pfire e' \<longrightarrow>
                PersistentTimeCapsule_WaitForUnlock ptc ctx key now benv b
                  = (Inl (ContextError e'), during_wait benv b')))"
proof (intro conjI)
  show "ctx_Err ctx now = Some e \<longrightarrow>
      MemoryTimeCapsule_WaitForUnlock ctx key now env tc = (Inl (ContextError e), tc)
    \<and> PersistentTimeCapsule_WaitForUnlock ptc ctx key now benv b
        = (Inl (ContextError e), b)"
    by (simp add: Memory_cancelled(7) Persistent_cancelled(7))
next
  show "ctx_Err ctx now = None
      \<and> fst (MemoryTimeCapsule_Peek ctx key now tc) = Inl err \<longrightarrow>
      MemoryTimeCapsule_WaitForUnlock ctx key now env tc = (Inl err, tc)
    \<and> (err = ErrInvalidKey \<or> err = ErrCapsuleNotFound)"
    using Memory_WaitForUnlock_peek_error [of ctx now key tc err env]
      MemoryTimeCapsule_Peek_errors [of ctx now key tc err]
    by blast
next
  show "ctx_Err ctx now = None
      \<and> fst (MemoryTimeCapsule_Peek ctx key now tc) = Inr m \<and> \<not> IsLocked m \<longrightarrow>
      MemoryTimeCapsule_WaitForUnlock ctx key now env tc
        = MemoryTimeCapsule_Open ctx key now tc"
    using Memory_WaitForUnlock_unlocked [of ctx now key tc m env] by blast
next
  show "ctx_Err ctx now = None \<and> fst (MemoryTimeCapsule_Peek ctx key now tc) = Inr m
      \<and> IsLocked m \<and> fire = now + time_Until (MetaUnlockTime m) now \<longrightarrow>
      time_Until (MetaUnlockTime m) now = min (MetaUnlockTime m - now) maxDuration
    \<and> now < fire
    \<and> (ctx_Err ctx fire = None \<longrightarrow>
          select_Done_Timer ctx now (time_Until (MetaUnlockTime m) now) env
            = (Timer_C, fire + int (lag env))
        \<and> MemoryTimeCapsule_WaitForUnlock ctx key now env tc
            = MemoryTimeCapsule_Open ctx key (fire + int (lag env))
                (during_wait env tc))
    \<and> (ctx = DoneAt td e' \<and> td < fire \<longrightarrow>
          select_Done_Timer ctx now (time_Until (MetaUnlockTime m) now) env
            = (Ctx_Done e', td + int (lag env))
        \<and> MemoryTimeCapsule_WaitForUnlock ctx key now env tc
            = (Inl (ContextError e'), during_wait env tc))
    \<and> (ctx = DoneAt fire e' \<longrightarrow>
          MemoryTimeCapsule_WaitForUnlock ctx key now env tc
            = (Inl (ContextError e'), during_wait env tc))
    \<and> (ctx_Err ctx (fire + int (lag env)) = None
          \<and> capsules (during_wait env tc) key = None \<longrightarrow>
          fst (MemoryTimeCapsule_WaitForUnlock ctx key now env tc)
            = Inl ErrCapsuleNotFound)
    \<and> (ctx_Err ctx (fire + int (lag env)) = None
          \<and> capsules (during_wait env tc) key = Some c'
          \<and> fire + int (lag env) < UnlockTime c' \<longrightarrow>
          fst (MemoryTimeCapsule_WaitForUnlock ctx key now env tc)
            = Inl ErrCapsuleLocked)
    \<and> (ctx_Err ctx (fire + int (lag env)) = None
          \<and> capsules (during_wait env tc) key = Some c'
          \<and> UnlockTime c' \<le> fire + int (lag env) \<longrightarrow>
          fst (MemoryTimeCapsule_WaitForUnlock ctx key now env tc)
            = Inr (Value c'))"
  proof (intro impI, elim conjE)
    assume "ctx_Err ctx now = None"
      and "fst (MemoryTimeCapsule_Peek ctx key now tc) = Inr m"
      and "IsLocked m"
      and "fire = now + time_Until (MetaUnlockTime m) now"
    then show "time_Until (MetaUnlockTime m) now = min (MetaUnlockTime m - now) maxDuration
      \<and> now < fire
      \<and> (ctx_Err ctx fire = None \<longrightarrow>
            select_Done_Timer ctx now (time_Until (MetaUnlockTime m) now) env
              = (Timer_C, fire + int (lag env))
          \<and> MemoryTimeCapsule_WaitForUnlock ctx key now env tc
              = MemoryTimeCapsule_Open ctx key (fire + int (lag env))
                  (during_wait env tc))
      \<and> (ctx = DoneAt td e' \<and> td < fire \<longrightarrow>
            select_Done_Timer ctx now (time_Until (MetaUnlockTime m) now) env
              = (Ctx_Done e', td + int (lag env))
          \<and> MemoryTimeCapsule_WaitForUnlock ctx key now env tc
              = (Inl (ContextError e'), during_wait env tc))
      \<and> (ctx = DoneAt fire e' \<longrightarrow>
            MemoryTimeCapsule_WaitForUnlock ctx key now env tc
              = (Inl (ContextError e'), during_wait env tc))
      \<and> (ctx_Err ctx (fire + int (lag env)) = None
            \<and> capsules (during_wait env tc) key = None \<longrightarrow>
            fst (MemoryTimeCapsule_WaitForUnlock ctx key now env tc)
              = Inl ErrCapsuleNotFound)
      \<and> (ctx_Err ctx (fire + int (lag env)) = None
            \<and> capsules (during_wait env tc) key = Some c'
            \<and> fire + int (lag env) < UnlockTime c' \<longrightarrow>
            fst (MemoryTimeCapsule_WaitForUnlock ctx key now env tc)
              = Inl ErrCapsuleLocked)
      \<and> (ctx_Err ctx (fire + int (lag env)) = None
            \<and> capsules (during_wait env tc) key = Some c'
            \<and> UnlockTime c' \<le> fire + int (lag env) \<longrightarrow>
            fst (MemoryTimeCapsule_WaitForUnlock ctx key now env tc)
              = Inr (Value c'))"
      by (rule Memory_WaitForUnlock_locked)
  qed
next
  show "ctx_Err ctx now = None
      \<and> PersistentTimeCapsule_Peek ptc ctx key now b = (Inl err, b') \<longrightarrow>
      PersistentTimeCapsule_WaitForUnlock ptc ctx key now benv b = (Inl err, b')"
    using Persistent_WaitForUnlock_peek_error [of ctx now ptc key b err b' benv] by blast
next
  show "ctx_Err ctx now = None
      \<and> PersistentTimeCapsule_Peek ptc ctx key now b = (Inr pm, b')
      \<and> \<not> IsLocked pm \<longrightarrow>
      PersistentTimeCapsule_WaitForUnlock ptc ctx key now benv b
        = PersistentTimeCapsule_Open ptc ctx key now b'"
    using Persistent_WaitForUnlock_unlocked [of ctx now ptc key b pm b' benv] by blast
next
  show "ctx_Err ctx now = None
      \<and> PersistentTimeCapsule_Peek ptc ctx key now b = (Inr pm, b')
      \<and> IsLocked pm
      \<and> pfire = now + max 0 (time_Until (MetaUnlockTime pm) now) \<longrightarrow>
      (ctx_Err ctx pfire = None \<longrightarrow>
          select_Done_Timer ctx now (time_Until (MetaUnlockTime pm) now) benv
            = (Timer_C, pfire + int (lag benv))
        \<and> PersistentTimeCapsule_WaitForUnlock ptc ctx key now benv b
            = PersistentTimeCapsule_Open ptc ctx key (pfire + int (lag benv))
                (during_wait benv b'))
    \<and> (ctx = DoneAt td e' \<and> td < pfire \<longrightarrow>
          select_Done_Timer ctx now (time_Until (MetaUnlockTime pm) now) benv
            = (Ctx_Done e', td + int (lag benv))
        \<and> PersistentTimeCapsule_WaitForUnlock ptc ctx key now benv b
            = (Inl (ContextError e'), during_wait benv b'))
    \<and> (ctx = DoneAt pfire e' \<longrightarrow>
          PersistentTimeCapsule_WaitForUnlock ptc ctx key now benv b
            = (Inl (ContextError e'), during_wait benv b'))"
  proof (intro impI, elim conjE)
    assume "ctx_Err ctx now = None"
      and "PersistentTimeCapsule_Peek ptc ctx key now b = (Inr pm, b')"
      and "IsLocked pm"
      and "pfire = now + max 0 (time_Until (MetaUnlockTime pm) now)"
    then show "(ctx_Err ctx pfire = None \<longrightarrow>
          select_Done_Timer ctx now (time_Until (MetaUnlockTime pm) now) benv
            = (Timer_C, pfire + int (lag benv))
        \<and> PersistentTimeCapsule_WaitForUnlock ptc ctx key now benv b
            = PersistentTimeCapsule_Open ptc ctx key (pfire + int (lag benv))
                (during_wait benv b'))
      \<and> (ctx = DoneAt td e' \<and> td < pfire \<longrightarrow>
            select_Done_Timer ctx now (time_Until (MetaUnlockTime pm) now) benv
              = (Ctx_Done e', td + int (lag benv))
          \<and> PersistentTimeCapsule_WaitForUnlock ptc ctx key now benv b
              = (Inl (ContextError e'), during_wait benv b'))
      \<and> (ctx = DoneAt pfire e' \<longrightarrow>
            PersistentTimeCapsule_WaitForUnlock ptc ctx key now benv b
              = (Inl (ContextError e'), during_wait benv b'))"
      by (rule Persistent_WaitForUnlock_locked)
  qed
qed

theorem C3_wait_for_unlock_single_attempt_witness:
  "fst (MemoryTimeCapsule_WaitForUnlock Background ''x'' 0
          \<lparr>during_wait = (\<lambda>s. snd (MemoryTimeCapsule_Delay Background ''x'' 100 5 s)),
           ctx_first = False, lag = 0\<rparr>
          \<lparr>capsules = [''x'' \<mapsto> \<lparr>Value = ''v'', UnlockTime = 50, CreatedAt = 0\<rparr>]\<rparr>)
     = Inl ErrCapsuleLocked
   \<and> fst (MemoryTimeCapsule_WaitForUnlock Background ''x'' 0
          \<lparr>during_wait = (\<lambda>s. snd (MemoryTimeCapsule_Delete Background ''x'' 5 s)),
           ctx_first = False, lag = 0\<rparr>
          \<lparr>capsules = [''x'' \<mapsto> \<lparr>Value = ''v'', UnlockTime = 50, CreatedAt = 0\<rparr>]\<rparr>)
     = Inl ErrCapsuleNotFound
   \<and> fst (MemoryTimeCapsule_WaitForUnlock Background ''x'' 0
          \<lparr>during_wait = (\<lambda>s. s), ctx_first = False, lag = 0\<rparr>
          \<lparr>capsules = [''x'' \<mapsto> \<lparr>Value = ''v'', UnlockTime = 50, CreatedAt = 0\<rparr>]\<rparr>)
     = Inr ''v''
   \<and> select_Done_Timer Background 0 (time_Until 50 0)
          (\<lparr>during_wait = (\<lambda>s. s), ctx_first = False, lag = 0\<rparr>
             :: string MemoryTimeCapsule wait_env)
     = (Timer_C, 50)
   \<and> MemoryTimeCapsule_WaitForUnlock (DoneAt 10 DeadlineExceeded) ''x'' 0
          \<lparr>during_wait = (\<lambda>s. s), ctx_first = False, lag = 0\<rparr>
          \<lparr>capsules = [''x'' \<mapsto> \<lparr>Value = ''v'', UnlockTime = 3600, CreatedAt = 0\<rparr>]\<rparr>
     = (Inl (ContextError DeadlineExceeded),
        \<lparr>capsules = [''x'' \<mapsto> \<lparr>Value = ''v'', UnlockTime = 3600, CreatedAt = 0\<rparr>]\<rparr>)
   \<and> select_Done_Timer (DoneAt 10 DeadlineExceeded) 0 (time_Until 3600 0)
          (\<lparr>during_wait = (\<lambda>s. s), ctx_first = False, lag = 0\<rparr>
             :: string MemoryTimeCapsule wait_env)
     = (Ctx_Done DeadlineExceeded, 10)
   \<and> fst (PersistentTimeCapsule_WaitForUnlock
            (NewWithStorage MemoryStorage \<lparr>Encode = Inr, Decode = Inr\<rparr>) Background ''x'' 0
          \<lparr>during_wait = (\<lambda>s. s), ctx_first = False, lag = 2\<rparr>
          \<lparr>capsules = [''x'' \<mapsto> \<lparr>Value = [1, 2 :: 8 word], UnlockTime = 50, CreatedAt = 0\<rparr>]\<rparr>)
     = Inr [1, 2]"
proof -
  let ?tc = "\<lparr>capsules = [''x'' \<mapsto> \<lparr>Value = ''v'', UnlockTime = 50, CreatedAt = 0\<rparr>]\<rparr>"
  let ?m = "\<lparr>MetaUnlockTime = 50, MetaCreatedAt = 0, IsLocked = True\<rparr>"
  let ?delay = "\<lparr>during_wait = (\<lambda>s. snd (MemoryTimeCapsule_Delay Background ''x'' 100 5 s)),
           ctx_first = False, lag = 0\<rparr> :: string MemoryTimeCapsule wait_env"
  let ?delete = "\<lparr>during_wait = (\<lambda>s. snd (MemoryTimeCapsule_Delete Background ''x'' 5 s)),
           ctx_first = False, lag = 0\<rparr> :: string MemoryTimeCapsule wait_env"
  let ?idle = "\<lparr>during_wait = (\<lambda>s. s), ctx_first = False, lag = 0\<rparr>
           :: string MemoryTimeCapsule wait_env"
  let ?tc' = "\<lparr>capsules = [''x'' \<mapsto> \<lparr>Value = ''v'', UnlockTime = 3600, CreatedAt = 0\<rparr>]\<rparr>"
  let ?m' = "\<lparr>MetaUnlockTime = 3600, MetaCreatedAt = 0, IsLocked = True\<rparr>"
  let ?ptc = "NewWithStorage MemoryStorage \<lparr>Encode = Inr, Decode = Inr\<rparr>"
  let ?b = "\<lparr>capsules = [''x'' \<mapsto> \<lparr>Value = [1, 2 :: 8 word], UnlockTime = 50, CreatedAt = 0\<rparr>]\<rparr>"
  let ?benv = "\<lparr>during_wait = (\<lambda>s. s), ctx_first = False, lag = 2\<rparr>
           :: bytes MemoryTimeCapsule wait_env"
  have live: "ctx_Err Background 0 = None" by simp
  have peek: "fst (MemoryTimeCapsule_Peek Background ''x'' 0 ?tc) = Inr ?m"
    by (simp add: MemoryTimeCapsule_Peek_def)
  have locked: "IsLocked ?m" by simp
  have fire: "50 = 0 + time_Until (MetaUnlockTime ?m) 0"
    by (simp add: time_Until_def maxDuration_def minDuration_def)
  have live50: "ctx_Err Background 50 = None" by simp
  have live50_delay: "ctx_Err Background (50 + int (lag ?delay)) = None" by simp
  have live50_delete: "ctx_Err Background (50 + int (lag ?delete)) = None" by simp
  have delayed: "capsules (during_wait ?delay ?tc) ''x''
      = Some \<lparr>Value = ''v'', UnlockTime = 105, CreatedAt = 0\<rparr>"
    by (simp add: MemoryTimeCapsule_Delay_def)
  have ahead: "50 + int (lag ?delay) < UnlockTime \<lparr>Value = ''v'', UnlockTime = 105, CreatedAt = 0\<rparr>"
    by simp
  have deleted: "capsules (during_wait ?delete ?tc) ''x'' = None"
    by (simp add: MemoryTimeCapsule_Delete_def)
  have live': "ctx_Err (DoneAt 10 DeadlineExceeded) 0 = None" by simp
  have peek': "fst (MemoryTimeCapsule_Peek (DoneAt 10 DeadlineExceeded) ''x'' 0 ?tc') = Inr ?m'"
    by (simp add: MemoryTimeCapsule_Peek_def)
  have locked': "IsLocked ?m'" by simp
  have fire': "3600 = 0 + time_Until (MetaUnlockTime ?m') 0"
    by (simp add: time_Until_def maxDuration_def minDuration_def)
  have before: "(10 :: time) < 3600" by simp
  have w1: "fst (MemoryTimeCapsule_WaitForUnlock Background ''x'' 0 ?delay ?tc)
      = Inl ErrCapsuleLocked"
    using C3_wait_for_unlock_single_attempt [where ctx = Background and now = 0
        and e = Canceled and key = "''x''" and env = ?delay and tc = ?tc and m = ?m
        and fire = 50 and td = 0 and e' = Canceled and err = ErrInvalidKey
        and c' = "\<lparr>Value = ''v'', UnlockTime = 105, CreatedAt = 0\<rparr>"
        and ptc = ?ptc and b = ?b and b' = ?b and benv = ?benv and pm = ?m and pfire = 50]
      live peek locked fire live50_delay delayed ahead
    by blast
  have w2: "fst (MemoryTimeCapsule_WaitForUnlock Background ''x'' 0 ?delete ?tc)
      = Inl ErrCapsuleNotFound"
    using C3_wait_for_unlock_single_attempt [where ctx = Background and now = 0
        and e = Canceled and key = "''x''" and env = ?delete and tc = ?tc and m = ?m
        and fire = 50 and td = 0 and e' = Canceled and err = ErrInvalidKey
        and c' = "\<lparr>Value = ''v'', UnlockTime = 105, CreatedAt = 0\<rparr>"
        and ptc = ?ptc and b = ?b and b' = ?b and benv = ?benv and pm = ?m and pfire = 50]
      live peek locked fire live50_delete deleted
    by blast
  have w3: "select_Done_Timer Background 0 (time_Until (MetaUnlockTime ?m) 0) ?idle
      = (Timer_C, 50 + int (lag ?idle))
    \<and> MemoryTimeCapsule_WaitForUnlock Background ''x'' 0 ?idle ?tc
      = MemoryTimeCapsule_Open Background ''x'' (50 + int (lag ?idle)) (during_wait ?idle ?tc)"
    using C3_wait_for_unlock_single_attempt [where ctx = Background and now = 0
        and e = Canceled and key = "''x''" and env = ?idle and tc = ?tc and m = ?m
        and fire = 50 and td = 0 and e' = Canceled and err = ErrInvalidKey
        and c' = "\<lparr>Value = ''v'', UnlockTime = 105, CreatedAt = 0\<rparr>"
        and ptc = ?ptc and b = ?b and b' = ?b and benv = ?benv and pm = ?m and pfire = 50]
      live peek locked fire live50
    by blast
  have w4: "select_Done_Timer (DoneAt 10 DeadlineExceeded) 0
        (time_Until (MetaUnlockTime ?m') 0) ?idle
      = (Ctx_Done DeadlineExceeded, 10 + int (lag ?idle))
    \<and> MemoryTimeCapsule_WaitForUnlock (DoneAt 10 DeadlineExceeded) ''x'' 0 ?idle ?tc'
      = (Inl (ContextError DeadlineExceeded), during_wait ?idle ?tc')"
    using C3_wait_for_unlock_single_attempt [where ctx = "DoneAt 10 DeadlineExceeded"
        and now = 0 and e = Canceled and key = "''x''" and env = ?idle and tc = ?tc'
        and m = ?m' and fire = 3600 and td = 10 and e' = DeadlineExceeded
        and err = ErrInvalidKey
        and c' = "\<lparr>Value = ''v'', UnlockTime = 105, CreatedAt = 0\<rparr>"
        and ptc = ?ptc and b = ?b and b' = ?b and benv = ?benv and pm = ?m and pfire = 50]
      live' peek' locked' fire' before
    by blast
  have ppeek: "PersistentTimeCapsule_Peek ?ptc Background ''x'' 0 ?b = (Inr ?m, ?b)"
    by (simp add: PersistentTimeCapsule_Peek_def NewWithStorage_def MemoryStorage_def
        MemoryTimeCapsule_Peek_def)
  have pfire: "50 = 0 + max 0 (time_Until (MetaUnlockTime ?m) 0)"
    by (simp add: time_Until_def maxDuration_def minDuration_def)
  have w5: "PersistentTimeCapsule_WaitForUnlock ?ptc Background ''x'' 0 ?benv ?b
      = PersistentTimeCapsule_Open ?ptc Background ''x'' (50 + int (lag ?benv))
          (during_wait ?benv ?b)"
    using C3_wait_for_unlock_single_attempt [where ctx = Background and now = 0
        and e = Canceled and key = "''x''" and env = ?idle and tc = ?tc and m = ?m
        and fire = 50 and td = 0 and e' = Canceled and err = ErrInvalidKey
        and c' = "\<lparr>Value = ''v'', UnlockTime = 105, CreatedAt = 0\<rparr>"
        and ptc = ?ptc and b = ?b and b' = ?b and benv = ?benv and pm = ?m and pfire = 50]
      live ppeek locked pfire live50
    by blast
  have open52: "fst (PersistentTimeCapsule_Open ?ptc Background ''x'' 52 ?b) = Inr [1, 2]"
    by (simp add: PersistentTimeCapsule_Open_def NewWithStorage_def MemoryStorage_def
        MemoryTimeCapsule_Open_def)
  have until50: "time_Until 50 0 = 50" and until3600: "time_Until 3600 0 = 3600"
    by (simp_all add: time_Until_def maxDuration_def minDuration_def)
  from w1 w2 w3 w4 w5 open52 until50 until3600 show ?thesis
    by (simp add: MemoryTimeCapsule_Open_def)
qed

text \<open>
  C3, far-future unlock time. A capsule whose unlock time is \<open>10^19\<close> nanoseconds (some
  317 years) after the call: \<^verbatim>\<open>time.Until\<close> is capped at \<open>2^63 - 1\<close>, not the
  difference; the timer fires at instant \<open>2^63 - 1\<close>, before the unlock time; the one
  \<open>Open\<close> that follows returns \<open>ErrCapsuleLocked\<close>, where an \<open>Open\<close> after a wait of
  the full difference would have returned the value.
\<close>

theorem C3_wait_for_unlock_far_future_counterexample:
  "time_Until 10000000000000000000 0 = 9223372036854775807
   \<and> time_Until 10000000000000000000 0 \<noteq> 10000000000000000000 - 0
   \<and> fst (MemoryTimeCapsule_WaitForUnlock Background ''x'' 0
          \<lparr>during_wait = (\<lambda>s. s), ctx_first = False, lag = 0\<rparr>
          \<lparr>capsules = [''x'' \<mapsto>
             \<lparr>Value = ''v'', UnlockTime = 10000000000000000000, CreatedAt = 0\<rparr>]\<rparr>)
       = Inl ErrCapsuleLocked
   \<and> fst (MemoryTimeCapsule_Open Background ''x'' (0 + (10000000000000000000 - 0))
          \<lparr>capsules = [''x'' \<mapsto>
             \<lparr>Value = ''v'', UnlockTime = 10000000000000000000, CreatedAt = 0\<rparr>]\<rparr>)
       = Inr ''v''"
  by (simp add: MemoryTimeCapsule_WaitForUnlock_def MemoryTimeCapsule_Peek_def
      MemoryTimeCapsule_Open_def select_Done_Timer_def time_Until_def maxDuration_def
      minDuration_def)

section \<open>Delay on the two stores\<close>

text \<open>
  On the in-memory store a successful \<open>Delay(k, d)\<close> rewrites the unlock time of the
  record under \<open>k\<close> and nothing else, and under a context that is not cancelled
  \<open>Delay\<close> fails only with \<open>ErrInvalidKey\<close> (empty key) or \<open>ErrCapsuleNotFound\<close>
  (no record).
\<close>

lemma MemoryTimeCapsule_Delay_frame:
  fixes tc :: "'v MemoryTimeCapsule"
  assumes "fst (MemoryTimeCapsule_Delay ctx k d now tc) = None"
  shows "\<exists>c. capsules tc k = Some c
           \<and> capsules (snd (MemoryTimeCapsule_Delay ctx k d now tc))
               = (capsules tc)(k \<mapsto> c\<lparr>UnlockTime := now + d\<rparr>)"
  using assms
  by (auto simp add: MemoryTimeCapsule_Delay_def split: option.splits if_splits)

lemma MemoryTimeCapsule_Delay_errors:
  fixes tc :: "'v MemoryTimeCapsule"
  assumes "ctx_Err ctx now = None"
    and "fst (MemoryTimeCapsule_Delay ctx k d now tc) = Some err"
  shows "(err = ErrInvalidKey \<and> k = []) \<or> (err = ErrCapsuleNotFound \<and> capsules tc k = None)"
  using assms
  by (auto simp add: MemoryTimeCapsule_Delay_def split: option.splits if_splits)

text \<open>
  The backend-delegating \<open>Delay\<close> is \<^verbatim>\<open>storage.Peek\<close>, \<^verbatim>\<open>storage.Open\<close>,
  \<^verbatim>\<open>storage.Store\<close>. Over the in-memory backend, \<^verbatim>\<open>storage.Open\<close> refuses
  every capsule that is still locked, so \<open>Delay\<close> of a locked capsule fails with
  \<open>ErrCapsuleLocked\<close> and changes nothing; on an unlocked capsule it succeeds, and
  \<^verbatim>\<open>storage.Store\<close> writes a new record whose creation time is the instant of the
  \<open>Delay\<close>.
\<close>

lemma PersistentTimeCapsule_Delay_locked:
  fixes cd :: "'v Codec"
  assumes "ctx_Err ctx now = None" and "k \<noteq> []"
    and "capsules b k = Some c" and "now < UnlockTime c"
  shows "PersistentTimeCapsule_Delay (NewWithStorage MemoryStorage cd) ctx k d now b
           = (Some ErrCapsuleLocked, b)"
  using assms
  by (simp add: PersistentTimeCapsule_Delay_def NewWithStorage_def MemoryStorage_def
      MemoryTimeCapsule_Peek_def MemoryTimeCapsule_Open_def)

lemma PersistentTimeCapsule_Delay_unlocked:
  fixes cd :: "'v Codec"
  assumes "ctx_Err ctx now = None" and "k \<noteq> []"
    and "capsules b k = Some c" and "UnlockTime c \<le> now"
  shows "PersistentTimeCapsule_Delay (NewWithStorage MemoryStorage cd) ctx k d now b
           = (None, b\<lparr>capsules := (capsules b)(k \<mapsto>
                \<lparr>Value = Value c, UnlockTime = now + d, CreatedAt = now\<rparr>)\<rparr>)"
  using assms
  by (simp add: PersistentTimeCapsule_Delay_def NewWithStorage_def MemoryStorage_def
      MemoryTimeCapsule_Peek_def MemoryTimeCapsule_Open_def MemoryTimeCapsule_Store_def)

text \<open>
  C7. \<open>Delay\<close> of a capsule that is still locked, on the backend-delegating store
  over a backend whose \<open>Open\<close> succeeds only on an unlocked capsule: the capsule is
  stored at instant 0 with unlock time 3600 and \<open>Delay\<close> by 7200 is called at
  instant 1, all under \<^verbatim>\<open>context.Background()\<close>. The backend-delegating
  \<open>Delay\<close> returns \<open>ErrCapsuleLocked\<close>, which is neither \<open>ErrInvalidKey\<close> nor
  \<open>ErrCapsuleNotFound\<close>; the in-memory \<open>Delay\<close> after the same \<open>Store\<close> succeeds.
\<close>

theorem C7_persistent_delay_of_locked_capsule:
  "fst (PersistentTimeCapsule_Delay
          (NewWithStorage MemoryStorage \<lparr>Encode = Inr, Decode = Inr\<rparr>)
          Background ''secret'' 7200 1
          (snd (PersistentTimeCapsule_Store
                  (NewWithStorage MemoryStorage \<lparr>Encode = Inr, Decode = Inr\<rparr>)
                  Background ''secret'' [1, 2 :: 8 word] 3600 0 New)))
     = Some ErrCapsuleLocked
   \<and> fst (MemoryTimeCapsule_Delay Background ''secret'' 7200 1
          (snd (MemoryTimeCapsule_Store Background ''secret'' [1, 2 :: 8 word] 3600 0 New)))
     = None"
  by (simp add: PersistentTimeCapsule_Delay_def PersistentTimeCapsule_Store_def
      NewWithStorage_def MemoryStorage_def MemoryTimeCapsule_Peek_def
      MemoryTimeCapsule_Open_def MemoryTimeCapsule_Store_def MemoryTimeCapsule_Delay_def
      New_def)

text \<open>
  C5. A successful \<open>Delay\<close> on the backend-delegating store over the in-memory
  backend: the record under \<open>k\<close> was created at instant 0 with unlock time 5, and
  \<open>Delay\<close> by 50 is called at instant 10. The call succeeds and leaves a record with
  the same value, unlock time 60 and creation time 10, not 0; the in-memory \<open>Delay\<close>
  on the same store leaves the creation time 0.
\<close>

theorem C5_persistent_delay_resets_created_at:
  "fst (PersistentTimeCapsule_Delay
          (NewWithStorage MemoryStorage \<lparr>Encode = Inr, Decode = Inr\<rparr>)
          Background ''k'' 50 10
          \<lparr>capsules = [''k'' \<mapsto> \<lparr>Value = [1, 2 :: 8 word], UnlockTime = 5, CreatedAt = 0\<rparr>]\<rparr>)
     = None
   \<and> capsules (snd (PersistentTimeCapsule_Delay
          (NewWithStorage MemoryStorage \<lparr>Encode = Inr, Decode = Inr\<rparr>)
          Background ''k'' 50 10
          \<lparr>capsules = [''k'' \<mapsto> \<lparr>Value = [1, 2 :: 8 word], UnlockTime = 5, CreatedAt = 0\<rparr>]\<rparr>))
        ''k''
     = Some \<lparr>Value = [1, 2], UnlockTime = 60, CreatedAt = 10\<rparr>
   \<and> capsules (snd (MemoryTimeCapsule_Delay Background ''k'' 50 10
          \<lparr>capsules = [''k'' \<mapsto> \<lparr>Value = [1, 2 :: 8 word], UnlockTime = 5, CreatedAt = 0\<rparr>]\<rparr>))
        ''k''
     = Some \<lparr>Value = [1, 2], UnlockTime = 60, CreatedAt = 0\<rparr>"
  by (simp add: PersistentTimeCapsule_Delay_def
      NewWithStorage_def MemoryStorage_def MemoryTimeCapsule_Peek_def
      MemoryTimeCapsule_Open_def MemoryTimeCapsule_Store_def MemoryTimeCapsule_Delay_def)

end
